theory Spec2Isabelle
  imports Complex_Main "HOL-Library.Sublist"
begin

section \<open>The discovery engine: event-driven research pipeline\<close>

text \<open>
  The steps of the pipeline are TypeScript handlers that receive an event payload and a
  context (state store, event emitter, secrets).  Each handler is embedded as a HOL
  function from the context and the payload to the effects it performs.

  Conventions of the embedding:
  \<^item> Where a step only copies or compares numbers (search results, report-compiler),
    they are exact rationals (\<open>rat\<close>); \<open>NaN\<close>, the infinities and binary rounding
    are outside the model there.  Where a step computes with the numbers of a parsed
    completion (question-judger), they are IEEE 754 doubles (\<open>number\<close>).
  \<^item> An optional property \<open>error?: string\<close> is a \<open>string option\<close>.  The test
    \<open>!q.error\<close> of the source is JavaScript truthiness: it holds for an absent
    property and for the empty string.
  \<^item> A thrown value is an \<open>exn\<close>; a \<open>try\<close>/\<open>catch\<close> is \<open>tryCatch\<close>.
  \<^item> Calls to the logger have no effect on the store or on the events and are left out.
\<close>

subsection \<open>Values\<close>

datatype exn =
    JsError (exn_name: string) (message: string)
  | Thrown string

text \<open>\<open>error instanceof Error ? error.message : dflt\<close>\<close>

fun message_or :: "string \<Rightarrow> exn \<Rightarrow> string" where
  "message_or dflt (JsError n m) = m"
| "message_or dflt (Thrown s) = dflt"

text \<open>\<open>error instanceof Error ? error.message : String(error)\<close>\<close>

fun message_or_String :: "exn \<Rightarrow> string" where
  "message_or_String (JsError n m) = m"
| "message_or_String (Thrown s) = s"

text \<open>Truthiness of a value of type \<open>string | undefined\<close>.\<close>

fun truthy :: "string option \<Rightarrow> bool" where
  "truthy None = False"
| "truthy (Some s) = (s \<noteq> [])"

record EvaluationCriterion =
  score :: rat
  justification :: string

record EvaluatedQuestion =
  question :: string
  novelty :: EvaluationCriterion
  feasibility :: EvaluationCriterion
  impact :: EvaluationCriterion
  crossDisciplinary :: EvaluationCriterion
  overallScore :: rat
  error :: "string option"

record ReportMetadata =
  totalQuestionsEvaluated :: nat
  questionsInReport :: nat

record FinalReport =
  traceId :: string
  seedTopic :: string
  timestamp :: string
  topQuestions :: "EvaluatedQuestion list"
  metadata :: ReportMetadata

text \<open>A search result as exa-searcher builds it; content-extractor reads its url and title.\<close>

record SearchResult =
  result_url :: string
  result_title :: string
  result_id :: string
  publishedDate :: "string option"
  author :: "string option"
  result_score :: "rat option"

text \<open>
  \<open>ExtractedContent\<close>.  The fields \<open>length\<close> and \<open>error\<close> of the source are
  \<open>length'\<close> and \<open>error'\<close> here.
\<close>

record ExtractedContent =
  url :: string
  title :: string
  content :: string
  excerpt :: "string option"
  length' :: "nat option"
  error' :: "string option"

subsection \<open>JSON values\<close>

text \<open>
  A JavaScript number is an IEEE 754 double: a finite value, which is a rational number,
  an infinity, or \<open>NaN\<close>.  Negative zero is not told apart from zero.
\<close>

datatype number =
    Finite rat
  | PosInf
  | NegInf
  | NaN

text \<open>
  What \<open>JSON.parse\<close> returns.  An object is the list of its properties, each key once.
\<close>

datatype json =
    JNull
  | JBool bool
  | JNumber number
  | JString string
  | JArray "json list"
  | JObject "(string \<times> json) list"

subsection \<open>The trace state store and the event emitter\<close>

text \<open>
  What the steps store, and the payloads they emit.  The first component of a payload is the
  trace identifier; \<open>WorkflowError traceId step error\<close> is the payload of
  \<open>workflow.error\<close>.
  The evaluated questions are stored and emitted as the objects that question-judger
  builds.
\<close>

datatype artifact =
    AString string
  | AStrings "string list"
  | ASearchResults "SearchResult list"
  | AContent "ExtractedContent list"
  | AEvaluated "json list"
  | AReport FinalReport

datatype event_data =
    QueriesGenerated string "string list"
  | SearchResultsObtained string "SearchResult list" "string list"
  | ContentExtracted string "ExtractedContent list"
  | QuestionsGenerated string "string list"
  | QuestionsJudged string "json list"
  | ReportGenerated string FinalReport
  | WorkflowError string string string

datatype action =
    StateSet string artifact
  | Emit string event_data

text \<open>
  The context of one handler invocation.  \<open>store\<close> is the content of the state store
  when the handler starts; \<open>get_fails\<close>, \<open>set_fails\<close> and \<open>emit_fails\<close> say for which
  key or topic the asynchronous call rejects, and with what; \<open>now\<close> is what
  \<open>new Date().toISOString()\<close> returns.
\<close>

record step_context =
  store :: "string \<Rightarrow> artifact option"
  get_fails :: "string \<Rightarrow> exn option"
  set_fails :: "string \<Rightarrow> exn option"
  emit_fails :: "string \<Rightarrow> exn option"
  now :: string

text \<open>
  A run is the list of effects that took place, in the order of execution, and the
  exception that left the code, if any.
\<close>

type_synonym run = "action list \<times> exn option"

definition state_set :: "step_context \<Rightarrow> string \<Rightarrow> artifact \<Rightarrow> run" where
  "state_set ctx key v =
     (case set_fails ctx key of
        None \<Rightarrow> ([StateSet key v], None)
      | Some e \<Rightarrow> ([], Some e))"

definition emit :: "step_context \<Rightarrow> string \<Rightarrow> event_data \<Rightarrow> run" where
  "emit ctx topic d =
     (case emit_fails ctx topic of
        None \<Rightarrow> ([Emit topic d], None)
      | Some e \<Rightarrow> ([], Some e))"

definition state_get :: "step_context \<Rightarrow> string \<Rightarrow> exn + artifact option" where
  "state_get ctx key =
     (case get_fails ctx key of
        None \<Rightarrow> Inr (store ctx key)
      | Some e \<Rightarrow> Inl e)"

definition andThen :: "run \<Rightarrow> run \<Rightarrow> run" where
  "andThen r s = (case snd r of None \<Rightarrow> (fst r @ fst s, snd s) | Some e \<Rightarrow> r)"

definition tryCatch :: "run \<Rightarrow> (exn \<Rightarrow> run) \<Rightarrow> run" where
  "tryCatch r h =
     (case snd r of None \<Rightarrow> r | Some e \<Rightarrow> (fst r @ fst (h e), snd (h e)))"

definition throw :: "exn \<Rightarrow> run" where
  "throw e = ([], Some e)"

text \<open>
  \<open>state.get<string>(key)\<close> followed by a truthiness test: the artifact under a
  \<open>seed_topic\<close> key is a string; anything else there counts as absent.
\<close>

fun truthy_string :: "artifact option \<Rightarrow> string option" where
  "truthy_string (Some (AString s)) = (if s = [] then None else Some s)"
| "truthy_string _ = None"

subsection \<open>Arrays on the heap\<close>

text \<open>
  \<open>Array.prototype.sort\<close> sorts in place, \<open>filter\<close> and \<open>slice\<close> allocate.  An
  array is a cell of the heap, a reference is its index.
\<close>

type_synonym ref = nat
type_synonym heap = "EvaluatedQuestion list list"

definition alloc :: "heap \<Rightarrow> EvaluatedQuestion list \<Rightarrow> ref \<times> heap" where
  "alloc h xs = (length h, h @ [xs])"

text \<open>
  \<open>sort(compareFn)\<close>: ECMAScript requires the sort to be stable and, for a consistent
  comparator, the result to be ordered by it.  The model is the stable insertion sort:
  \<open>x\<close>, which stood before the elements of \<open>ys\<close>, stays before the first \<open>y\<close>
  with \<open>compareFn(x, y) \<le> 0\<close>.  For the comparator of report-compiler every stable
  sort gives the same list (\<open>sort_cmp_determined\<close>).
\<close>

fun insert_cmp :: "('a \<Rightarrow> 'a \<Rightarrow> rat) \<Rightarrow> 'a \<Rightarrow> 'a list \<Rightarrow> 'a list" where
  "insert_cmp cmp x [] = [x]"
| "insert_cmp cmp x (y # ys) =
     (if cmp x y \<le> 0 then x # y # ys else y # insert_cmp cmp x ys)"

fun sort_cmp :: "('a \<Rightarrow> 'a \<Rightarrow> rat) \<Rightarrow> 'a list \<Rightarrow> 'a list" where
  "sort_cmp cmp [] = []"
| "sort_cmp cmp (x # xs) = insert_cmp cmp x (sort_cmp cmp xs)"

definition slice :: "'a list \<Rightarrow> nat \<Rightarrow> nat \<Rightarrow> 'a list" where
  "slice xs start fin = take (fin - start) (drop start xs)"

definition array_filter ::
  "heap \<Rightarrow> ref \<Rightarrow> (EvaluatedQuestion \<Rightarrow> bool) \<Rightarrow> ref \<times> heap" where
  "array_filter h a p = alloc h (filter p (h ! a))"

definition array_sort ::
  "heap \<Rightarrow> ref \<Rightarrow> (EvaluatedQuestion \<Rightarrow> EvaluatedQuestion \<Rightarrow> rat) \<Rightarrow> heap" where
  "array_sort h a cmp = h[a := sort_cmp cmp (h ! a)]"

definition array_slice :: "heap \<Rightarrow> ref \<Rightarrow> nat \<Rightarrow> nat \<Rightarrow> ref \<times> heap" where
  "array_slice h a start fin = alloc h (slice (h ! a) start fin)"

subsection \<open>report-compiler\<close>

text \<open>The handler of \<^verbatim>\<open>steps/report-compiler.event.step.ts\<close>.\<close>

record QuestionsEvaluatedPayload =
  payload_traceId :: string
  evaluatedQuestions :: ref

definition TOP_N_QUESTIONS :: nat where
  "TOP_N_QUESTIONS = 5"

definition by_score_desc :: "EvaluatedQuestion \<Rightarrow> EvaluatedQuestion \<Rightarrow> rat" where
  "by_score_desc a b = overallScore b - overallScore a"

definition not_error :: "EvaluatedQuestion \<Rightarrow> bool" where
  "not_error q = (\<not> truthy (error q))"

text \<open>
  The body of the \<open>try\<close> block of the handler: steps 1 to 6.  The heap is returned
  with the run, so that what the handler did to the arrays it was given can be read off.
\<close>

definition compile_report ::
  "step_context \<Rightarrow> heap \<Rightarrow> QuestionsEvaluatedPayload \<Rightarrow> heap \<times> run" where
  "compile_report ctx h payload =
     (let tid = payload_traceId payload;
          evaluated = evaluatedQuestions payload;
          seedTopicKey = tid @ '':seed_topic''
      in case state_get ctx seedTopicKey of
           Inl e \<Rightarrow> (h, throw e)
         | Inr found \<Rightarrow>
             (let seed = truthy_string found;
                  (validEvaluations, h1) = array_filter h evaluated not_error;
                  h2 = array_sort h1 validEvaluations by_score_desc;
                  (top, h3) = array_slice h2 validEvaluations 0 TOP_N_QUESTIONS;
                  finalReport = \<lparr>
                    traceId = tid,
                    seedTopic = (case seed of Some s \<Rightarrow> s | None \<Rightarrow> ''Unknown''),
                    timestamp = now ctx,
                    topQuestions = h3 ! top,
                    metadata = \<lparr>
                      totalQuestionsEvaluated = length (h3 ! evaluated),
                      questionsInReport = length (h3 ! top) \<rparr> \<rparr>;
                  reportKey = tid @ '':final_report''
              in (h3,
                  andThen (state_set ctx reportKey (AReport finalReport))
                          (emit ctx ''report.generated'' (ReportGenerated tid finalReport)))))"

definition report_compiler ::
  "step_context \<Rightarrow> heap \<Rightarrow> QuestionsEvaluatedPayload \<Rightarrow> heap \<times> run" where
  "report_compiler ctx h payload =
     (let (h', r) = compile_report ctx h payload
      in (h', tryCatch r (\<lambda>e.
            emit ctx ''workflow.error''
              (WorkflowError (payload_traceId payload) ''report-compiler''
                 (message_or ''Unknown error during report compilation'' e)))))"


definition non_increasing :: "EvaluatedQuestion list \<Rightarrow> bool" where
  "non_increasing qs = sorted_wrt (\<lambda>a b. overallScore b \<le> overallScore a) qs"

text \<open>
  What the handler computes from the content \<open>qs\<close> of the array it was given, written
  without the heap: the ranked list and the report.  \<open>compile_report_run\<close> below proves
  that the handler stores and emits exactly this report.
\<close>

definition ranked :: "EvaluatedQuestion list \<Rightarrow> EvaluatedQuestion list" where
  "ranked qs = slice (sort_cmp by_score_desc (filter not_error qs)) 0 TOP_N_QUESTIONS"

definition report_of :: "step_context \<Rightarrow> string \<Rightarrow> EvaluatedQuestion list \<Rightarrow> FinalReport" where
  "report_of ctx tid qs = \<lparr>
     traceId = tid,
     seedTopic = (case truthy_string (store ctx (tid @ '':seed_topic'')) of
                    Some s \<Rightarrow> s | None \<Rightarrow> ''Unknown''),
     timestamp = now ctx,
     topQuestions = ranked qs,
     metadata = \<lparr> totalQuestionsEvaluated = length qs,
                  questionsInReport = length (ranked qs) \<rparr> \<rparr>"

subsection \<open>Sample data\<close>

text \<open>A context with an empty store in which no call fails.\<close>

definition quiet :: step_context where
  "quiet = \<lparr> store = Map.empty, get_fails = Map.empty, set_fails = Map.empty,
             emit_fails = Map.empty, now = ''2025-01-01T00:00:00.000Z'' \<rparr>"

definition scored :: "string \<Rightarrow> rat \<Rightarrow> string option \<Rightarrow> EvaluatedQuestion" where
  "scored q s e = \<lparr> question = q,
      novelty = \<lparr> score = s, justification = ''n'' \<rparr>,
      feasibility = \<lparr> score = s, justification = ''f'' \<rparr>,
      impact = \<lparr> score = s, justification = ''i'' \<rparr>,
      crossDisciplinary = \<lparr> score = s, justification = ''c'' \<rparr>,
      overallScore = s, error = e \<rparr>"

definition sample_heap :: heap where
  "sample_heap =
     [[scored ''a'' 3 None, scored ''b'' 7 None, scored ''c'' 0 (Some ''boom''),
       scored ''d'' 7 None, scored ''e'' 9 None, scored ''f'' 5 None,
       scored ''g'' 1 None, scored ''h'' 7 None]]"

definition sample_payload :: QuestionsEvaluatedPayload where
  "sample_payload = \<lparr> payload_traceId = ''t1'', evaluatedQuestions = 0 \<rparr>"

text \<open>A later invocation: the seed topic is in the store and the clock has moved on.\<close>

definition later :: step_context where
  "later = quiet \<lparr> store := [''t1:seed_topic'' \<mapsto> AString ''Quantum computing''],
                     now := ''2025-01-02T00:00:00.000Z'' \<rparr>"

subsection \<open>Double arithmetic\<close>

text \<open>
  \<open>to_double x\<close> is the double nearest to the rational \<open>x\<close>, the one with the even
  significand of two equally near (IEEE 754 binary64, round to nearest, ties to even): a
  significand of 53 bits, the spacing \<open>pow2 (- 1074)\<close> of the subnormal numbers below
  \<open>pow2 (- 1022)\<close>, and an infinity from \<open>2 ^ 1024\<close> on.
  \<open>bit_length n\<close> is the number of binary digits of \<open>n\<close>, \<open>pow2 e\<close> the power of two
  with the integer exponent \<open>e\<close>, and \<open>floor_log2 x\<close>, for a positive \<open>x\<close>, the
  \<open>e\<close> with \<open>pow2 e \<le> x < pow2 (e + 1)\<close>.
\<close>

fun bit_length :: "nat \<Rightarrow> nat" where
  "bit_length n = (if n = 0 then 0 else Suc (bit_length (n div 2)))"

declare bit_length.simps [simp del]

definition floor_log2 :: "rat \<Rightarrow> int" where
  "floor_log2 x =
     (if 1 \<le> x then int (bit_length (nat \<lfloor>x\<rfloor>)) - 1
      else - int (bit_length (nat (\<lceil>1 / x\<rceil> - 1))))"

definition pow2 :: "int \<Rightarrow> rat" where
  "pow2 e = (if 0 \<le> e then 2 ^ nat e else 1 / 2 ^ nat (- e))"

definition round_half_even :: "rat \<Rightarrow> int" where
  "round_half_even z =
     (let f = \<lfloor>z\<rfloor>; r = z - of_int f
      in if r < 1 / 2 then f else if 1 / 2 < r then f + 1 else if even f then f else f + 1)"

definition to_double :: "rat \<Rightarrow> number" where
  "to_double x =
     (if x = 0 then Finite 0
      else let e = max (floor_log2 \<bar>x\<bar> - 52) (- 1074);
               y = of_int (round_half_even (\<bar>x\<bar> / pow2 e)) * pow2 e
           in if 2 ^ 1024 \<le> y then (if 0 < x then PosInf else NegInf)
              else Finite (if 0 < x then y else - y))"

text \<open>\<open>a + b\<close> on two numbers.\<close>

fun num_add :: "number \<Rightarrow> number \<Rightarrow> number" where
  "num_add (Finite a) (Finite b) = to_double (a + b)"
| "num_add NaN y = NaN"
| "num_add x NaN = NaN"
| "num_add PosInf NegInf = NaN"
| "num_add NegInf PosInf = NaN"
| "num_add PosInf y = PosInf"
| "num_add NegInf y = NegInf"
| "num_add x PosInf = PosInf"
| "num_add x NegInf = NegInf"

text \<open>\<open>a / 4\<close> on a number.\<close>

fun div4 :: "number \<Rightarrow> number" where
  "div4 (Finite a) = to_double (a / 4)"
| "div4 x = x"

text \<open>
  The number that the digits of \<open>x.toFixed(2)\<close> denote, for a finite \<open>x\<close> below
  \<open>10 ^ 21\<close> in magnitude.  \<open>toFixed\<close> takes the integer \<open>n\<close> with \<open>n / 100\<close>
  nearest to \<open>x\<close>, the larger one of two, after it has set the sign of a negative \<open>x\<close>
  aside.
\<close>

definition toFixed2 :: "rat \<Rightarrow> rat" where
  "toFixed2 x =
     (if x < 0 then - (of_int \<lfloor>(- x) * 100 + 1 / 2\<rfloor> / 100)
      else of_int \<lfloor>x * 100 + 1 / 2\<rfloor> / 100)"

text \<open>
  \<open>parseFloat(x.toFixed(2))\<close>.  \<open>parseFloat\<close> reads the digits back as the nearest
  double.  From \<open>10 ^ 21\<close> on \<open>toFixed\<close> gives the digits of \<open>String(x)\<close>, which
  read back as \<open>x\<close>; \<open>Infinity\<close>, \<open>-Infinity\<close> and \<open>NaN\<close> read back as themselves.
\<close>

fun parseFloat_toFixed2 :: "number \<Rightarrow> number" where
  "parseFloat_toFixed2 (Finite x) =
     (if 10 ^ 21 \<le> \<bar>x\<bar> then Finite x else to_double (toFixed2 x))"
| "parseFloat_toFixed2 x = x"

subsection \<open>question-judger\<close>

text \<open>The handler of the question-judger step, \<^verbatim>\<open>src/unnamed/part_003\<close> (its first file).\<close>

text \<open>
  The completion service and \<open>JSON.parse\<close> are outside the repository; the handler
  is embedded over what they return.  \<open>chat i\<close> is the outcome of the \<open>i\<close>-th call of
  \<open>openai.chat.completions.create\<close> of the invocation: it throws, or it yields
  \<open>choices[0]?.message?.content\<close>.  \<open>JSON_parse\<close> throws or yields the parsed
  value.  The handler declares that value as
  \<open>Omit<EvaluatedQuestion, 'question' | 'overallScore' | 'error'>\<close>, but nothing
  checks the declaration when the handler runs: the value is any JSON value, and the
  handler reads it as JavaScript does.
  \<open>delay(500)\<close> has no effect on the result and is left out.
\<close>

datatype completion =
    ApiThrows exn
  | Content "string option"

record 'j openai_env =
  OPENAI_API_KEY :: "string option"
  chat :: "nat \<Rightarrow> completion"
  JSON_parse :: "string \<Rightarrow> exn + 'j"

text \<open>
  The operator \<open>+\<close> and the division convert an operand that is not a number, by the
  rules of the language: \<open>add_coercing a b\<close> is what \<open>a + b\<close> gives, or throws, when
  \<open>a\<close> or \<open>b\<close> is not a number (a concatenation when one of them is a string), and
  \<open>ToNumber v\<close> the number that the division takes for a \<open>v\<close> that is not a number.
\<close>

record judger_env = "json openai_env" +
  add_coercing :: "json \<Rightarrow> json \<Rightarrow> exn + json"
  ToNumber :: "json \<Rightarrow> number"

record QuestionsGeneratedPayload =
  judged_traceId :: string
  questions :: "string list"

text \<open>Truthiness of a JSON value, or of \<open>undefined\<close>.\<close>

fun truthy_json :: "json option \<Rightarrow> bool" where
  "truthy_json None = False"
| "truthy_json (Some JNull) = False"
| "truthy_json (Some (JBool b)) = b"
| "truthy_json (Some (JNumber n)) = (n \<noteq> Finite 0 \<and> n \<noteq> NaN)"
| "truthy_json (Some (JString s)) = (s \<noteq> [])"
| "truthy_json (Some (JArray xs)) = True"
| "truthy_json (Some (JObject kv)) = True"

text \<open>
  \<open>v.k\<close> for a value \<open>v\<close> other than \<open>null\<close> and one of the keys that the handler
  reads or writes: the property of an object, \<open>undefined\<close> on anything else.  \<open>v?.k\<close>
  is \<open>undefined\<close> when \<open>v\<close> is \<open>undefined\<close> or \<open>null\<close>.
\<close>

fun get_prop :: "json \<Rightarrow> string \<Rightarrow> json option" where
  "get_prop (JObject kv) k = map_of kv k"
| "get_prop v k = None"

fun optional_prop :: "json option \<Rightarrow> string \<Rightarrow> json option" where
  "optional_prop None k = None"
| "optional_prop (Some JNull) k = None"
| "optional_prop (Some v) k = get_prop v k"

text \<open>\<open>v[c]?.score\<close>\<close>

definition score_of :: "json \<Rightarrow> string \<Rightarrow> json option" where
  "score_of v c = optional_prop (get_prop v c) ''score''"

definition apostrophe :: char where
  "apostrophe = CHR 0x27"

text \<open>
  The inner \<open>try\<close>/\<open>catch\<close>: parse, validate, rethrow with a prefix.  Reading
  \<open>.novelty\<close> of \<open>null\<close> throws a \<open>TypeError\<close> (the message is that of V8).  A
  boolean, a number, a string or an array has no property \<open>novelty\<close>, so that the
  first test of the validation fails on it.
\<close>

definition parse_evaluation :: "judger_env \<Rightarrow> string \<Rightarrow> exn + (string \<times> json) list" where
  "parse_evaluation env responseContent =
     (case (case JSON_parse env responseContent of
              Inl e \<Rightarrow> Inl e
            | Inr evaluationResult \<Rightarrow>
                (case evaluationResult of
                   JNull \<Rightarrow>
                     Inl (JsError ''TypeError'' (''Cannot read properties of null (reading '' @
                            [apostrophe] @ ''novelty'' @ [apostrophe] @ '')''))
                 | JObject kv \<Rightarrow>
                     if \<not> truthy_json (score_of evaluationResult ''novelty'') \<or>
                        \<not> truthy_json (score_of evaluationResult ''feasibility'') \<or>
                        \<not> truthy_json (score_of evaluationResult ''impact'') \<or>
                        \<not> truthy_json (score_of evaluationResult ''crossDisciplinary'')
                     then Inl (JsError ''Error''
                            ''Parsed JSON is missing required evaluation fields or scores.'')
                     else Inr kv
                 | _ \<Rightarrow>
                     Inl (JsError ''Error''
                       ''Parsed JSON is missing required evaluation fields or scores.''))) of
        Inl parseError \<Rightarrow>
          Inl (JsError ''Error'' (''Failed to parse OpenAI JSON evaluation: '' @
                 message_or ''Unknown parsing error'' parseError))
      | Inr kv \<Rightarrow> Inr kv)"

text \<open>\<open>a + b\<close> and \<open>ToNumber\<close> on JSON values.\<close>

fun js_plus :: "judger_env \<Rightarrow> json \<Rightarrow> json \<Rightarrow> exn + json" where
  "js_plus env (JNumber a) (JNumber b) = Inr (JNumber (num_add a b))"
| "js_plus env a b = add_coercing env a b"

fun js_to_number :: "judger_env \<Rightarrow> json \<Rightarrow> number" where
  "js_to_number env (JNumber a) = a"
| "js_to_number env v = ToNumber env v"

text \<open>
  \<open>(r.novelty.score + r.feasibility.score + r.impact.score + r.crossDisciplinary.score) / 4\<close>
  for a validated \<open>r\<close>.
\<close>

definition overall_score :: "judger_env \<Rightarrow> json \<Rightarrow> exn + number" where
  "overall_score env r =
     (case js_plus env (the (score_of r ''novelty'')) (the (score_of r ''feasibility'')) of
        Inl e \<Rightarrow> Inl e
      | Inr s1 \<Rightarrow>
     (case js_plus env s1 (the (score_of r ''impact'')) of
        Inl e \<Rightarrow> Inl e
      | Inr s2 \<Rightarrow>
     (case js_plus env s2 (the (score_of r ''crossDisciplinary'')) of
        Inl e \<Rightarrow> Inl e
      | Inr s3 \<Rightarrow> Inr (div4 (js_to_number env s3)))))"

text \<open>
  Writing the properties \<open>src\<close> into the object \<open>obj\<close>, in order: a property that
  \<open>obj\<close> has keeps its place and takes the new value, the others are added behind.
  This is what a spread \<open>...src\<close> and a property \<open>k: v\<close> of an object literal do to the
  properties written before them.
\<close>

definition assign :: "(string \<times> json) list \<Rightarrow> (string \<times> json) list \<Rightarrow> (string \<times> json) list" where
  "assign obj src =
     map (\<lambda>(k, v). (k, case map_of src k of Some w \<Rightarrow> w | None \<Rightarrow> v)) obj @
     filter (\<lambda>(k, w). map_of obj k = None) src"

text \<open>
  The body of the \<open>try\<close> block of one loop iteration.  The entry is
  \<open>{ question: question, ...evaluationResult, overallScore: parseFloat(overallScore.toFixed(2)) }\<close>.
\<close>

definition try_evaluate :: "judger_env \<Rightarrow> nat \<Rightarrow> string \<Rightarrow> exn + json" where
  "try_evaluate env i q =
     (case chat env i of
        ApiThrows e \<Rightarrow> Inl e
      | Content responseContent \<Rightarrow>
          if \<not> truthy responseContent
          then Inl (JsError ''Error'' ''OpenAI evaluation response content was empty.'')
          else (case parse_evaluation env (the responseContent) of
                  Inl e \<Rightarrow> Inl e
                | Inr evaluationResult \<Rightarrow>
                    (case overall_score env (JObject evaluationResult) of
                       Inl e \<Rightarrow> Inl e
                     | Inr overall \<Rightarrow>
                         Inr (JObject (assign (assign [(''question'', JString q)] evaluationResult)
                                [(''overallScore'', JNumber (parseFloat_toFixed2 overall))])))))"

definition placeholder :: json where
  "placeholder = JObject [(''score'', JNumber (Finite 0)),
                          (''justification'', JString ''Evaluation Error'')]"

definition evaluation_error :: "string \<Rightarrow> string \<Rightarrow> json" where
  "evaluation_error q errorMessage = JObject
     [(''question'', JString q),
      (''novelty'', placeholder),
      (''feasibility'', placeholder),
      (''impact'', placeholder),
      (''crossDisciplinary'', placeholder),
      (''overallScore'', JNumber (Finite 0)),
      (''error'', JString errorMessage)]"

text \<open>One loop iteration: the entry that is pushed.\<close>

definition evaluate_question :: "judger_env \<Rightarrow> nat \<Rightarrow> string \<Rightarrow> json" where
  "evaluate_question env i q =
     (case try_evaluate env i q of
        Inr entry \<Rightarrow> entry
      | Inl evalError \<Rightarrow>
          evaluation_error q (message_or ''Unknown evaluation error'' evalError))"

text \<open>\<open>for (const question of payload.questions)\<close>, pushing onto \<open>evaluatedQuestions\<close>.\<close>

fun judge_loop :: "judger_env \<Rightarrow> nat \<Rightarrow> json list \<Rightarrow> string list \<Rightarrow> json list" where
  "judge_loop env i evaluated [] = evaluated"
| "judge_loop env i evaluated (q # qs) =
     judge_loop env (Suc i) (evaluated @ [evaluate_question env i q]) qs"

definition question_judger ::
  "step_context \<Rightarrow> judger_env \<Rightarrow> QuestionsGeneratedPayload \<Rightarrow> run" where
  "question_judger ctx env payload =
     (let tid = judged_traceId payload in
      if \<not> truthy (OPENAI_API_KEY env)
      then emit ctx ''workflow.error''
             (WorkflowError tid ''question-judger'' ''Missing OpenAI API Key'')
      else tryCatch
             (case state_get ctx (tid @ '':seed_topic'') of
                Inl e \<Rightarrow> throw e
              | Inr found \<Rightarrow>
                  (let evaluated = judge_loop env 0 [] (questions payload)
                   in andThen
                        (state_set ctx (tid @ '':evaluated_questions'') (AEvaluated evaluated))
                        (emit ctx ''questions.judged'' (QuestionsJudged tid evaluated))))
             (\<lambda>e. emit ctx ''workflow.error''
                (WorkflowError tid ''question-judger''
                   (''Critical error in evaluation step: '' @
                      message_or ''Unknown critical error'' e))))"

text \<open>
  The words of the specification: \<open>r\<close> is \<open>x\<close> rounded to two decimal places when it
  is a whole number of hundredths and no further than half a hundredth from \<open>x\<close>.
\<close>

definition rounded_to_2_places :: "rat \<Rightarrow> rat \<Rightarrow> bool" where
  "rounded_to_2_places r x = (r * 100 = of_int \<lfloor>r * 100\<rfloor> \<and> \<bar>r - x\<bar> \<le> 1 / 200)"

text \<open>
  What the handler stores as the overall score of four scores that are numbers, and the
  arithmetic mean of four rationals.
\<close>

definition overall_of_numbers :: "number \<Rightarrow> number \<Rightarrow> number \<Rightarrow> number \<Rightarrow> number" where
  "overall_of_numbers n f m c =
     parseFloat_toFixed2 (div4 (num_add (num_add (num_add n f) m) c))"

definition mean4 :: "rat \<Rightarrow> rat \<Rightarrow> rat \<Rightarrow> rat \<Rightarrow> rat" where
  "mean4 n f m c = (n + f + m + c) / 4"

text \<open>
  What \<open>JSON.parse\<close> returned for the \<open>i\<close>-th completion, if the completion had a
  content and the content parsed; and whether that value has a property \<open>k\<close>.
\<close>

definition completed :: "judger_env \<Rightarrow> nat \<Rightarrow> json option" where
  "completed env i =
     (case chat env i of
        ApiThrows e \<Rightarrow> None
      | Content responseContent \<Rightarrow>
          if \<not> truthy responseContent then None
          else (case JSON_parse env (the responseContent) of
                  Inl e \<Rightarrow> None
                | Inr r \<Rightarrow> Some r))"

definition carries :: "judger_env \<Rightarrow> nat \<Rightarrow> string \<Rightarrow> bool" where
  "carries env i k = (case completed env i of None \<Rightarrow> False | Some r \<Rightarrow> get_prop r k \<noteq> None)"

text \<open>
  The two kinds of entry of an \<open>evaluated_questions\<close> artifact.  A scored entry is built
  from the \<open>i\<close>-th completion: it has the four criteria of the completion, each with a
  truthy score, and the overall score computed from them; it has no \<open>error\<close> unless the
  completion has one.  An error entry has the question, the placeholder with score 0 on
  every criterion, the overall score 0 and an error message.
\<close>

definition has_criterion :: "json \<Rightarrow> json \<Rightarrow> string \<Rightarrow> bool" where
  "has_criterion r e c = (get_prop e c = get_prop r c \<and> truthy_json (score_of e c))"

definition scored_entry :: "judger_env \<Rightarrow> nat \<Rightarrow> json \<Rightarrow> bool" where
  "scored_entry env i e =
     (case completed env i of
        None \<Rightarrow> False
      | Some r \<Rightarrow>
          has_criterion r e ''novelty'' \<and> has_criterion r e ''feasibility'' \<and>
          has_criterion r e ''impact'' \<and> has_criterion r e ''crossDisciplinary'' \<and>
          (case overall_score env r of
             Inl x \<Rightarrow> False
           | Inr overall \<Rightarrow>
               get_prop e ''overallScore'' = Some (JNumber (parseFloat_toFixed2 overall))) \<and>
          (\<not> carries env i ''error'' \<longrightarrow> get_prop e ''error'' = None))"

fun is_string :: "json option \<Rightarrow> bool" where
  "is_string (Some (JString s)) = True"
| "is_string v = False"

definition error_entry :: "string \<Rightarrow> json \<Rightarrow> bool" where
  "error_entry q e =
     (get_prop e ''question'' = Some (JString q) \<and>
      get_prop e ''novelty'' = Some placeholder \<and>
      get_prop e ''feasibility'' = Some placeholder \<and>
      get_prop e ''impact'' = Some placeholder \<and>
      get_prop e ''crossDisciplinary'' = Some placeholder \<and>
      get_prop e ''overallScore'' = Some (JNumber (Finite 0)) \<and>
      is_string (get_prop e ''error''))"

text \<open>
  A judging run: one completion is scored, one call throws, one completion does not parse.
  The scores of the samples are numbers, so that the conversions are never called; the
  samples fix them arbitrarily.
\<close>

definition criterion :: "rat \<Rightarrow> string \<Rightarrow> json" where
  "criterion s j = JObject [(''score'', JNumber (Finite s)), (''justification'', JString j)]"

definition sample_evaluation :: json where
  "sample_evaluation = JObject
     [(''novelty'', criterion 7 ''new''),
      (''feasibility'', criterion 8 ''doable''),
      (''impact'', criterion 8 ''large''),
      (''crossDisciplinary'', criterion 8 ''broad'')]"

definition sample_env :: judger_env where
  "sample_env = \<lparr>
     OPENAI_API_KEY = Some ''sk'',
     chat = (\<lambda>i. if i = 0 then Content (Some ''A'')
                 else if i = 1 then ApiThrows (JsError ''Error'' ''timeout'')
                 else Content (Some ''B'')),
     JSON_parse = (\<lambda>s. if s = ''A'' then Inr sample_evaluation
                       else Inl (JsError ''SyntaxError'' ''Unexpected token'')),
     add_coercing = (\<lambda>a b. Inr (JString [])),
     ToNumber = (\<lambda>v. NaN) \<rparr>"

definition sample_questions :: QuestionsGeneratedPayload where
  "sample_questions = \<lparr> judged_traceId = ''t1'', questions = [''q0'', ''q1'', ''q2''] \<rparr>"

text \<open>
  A completion that carries a \<open>question\<close> and an \<open>error\<close> of its own, and one whose
  scores are 1, 1, 1 and 1.02, the last as the double that \<open>JSON.parse\<close> reads.
\<close>

definition one_question :: QuestionsGeneratedPayload where
  "one_question = \<lparr> judged_traceId = ''t1'', questions = [''q0''] \<rparr>"

definition replying :: "json \<Rightarrow> judger_env" where
  "replying r = \<lparr>
     OPENAI_API_KEY = Some ''sk'',
     chat = (\<lambda>i. Content (Some ''{...}'')),
     JSON_parse = (\<lambda>s. Inr r),
     add_coercing = (\<lambda>a b. Inr (JString [])),
     ToNumber = (\<lambda>v. NaN) \<rparr>"

definition injected :: json where
  "injected = JObject
     [(''question'', JString ''injected''),
      (''novelty'', criterion 5 ''a''),
      (''feasibility'', criterion 5 ''b''),
      (''impact'', criterion 5 ''c''),
      (''crossDisciplinary'', criterion 5 ''d''),
      (''error'', JString ''boom'')]"

definition nearly_round :: json where
  "nearly_round = JObject
     [(''novelty'', criterion 1 ''a''),
      (''feasibility'', criterion 1 ''b''),
      (''impact'', criterion 1 ''c''),
      (''crossDisciplinary'', criterion (4593671619917906 / 4503599627370496) ''d'')]"

subsection \<open>content-extractor\<close>

text \<open>The handler of the content-extractor step, \<^verbatim>\<open>src/unnamed/part_005\<close>.\<close>

text \<open>
  \<open>node-fetch\<close>, \<open>JSDOM\<close> and \<open>Readability\<close> are outside the repository.  One
  attempt at a URL has an outcome of type \<open>fetched\<close>: \<open>fetch\<close> rejects (a transport
  error, or an \<open>AbortError\<close> when the controller aborted it after \<open>FETCH_TIMEOUT\<close>), or
  it yields a response with \<open>ok\<close>, \<open>status\<close> and the \<open>content-type\<close> header, whose
  body either makes \<open>response.text()\<close>, \<open>new JSDOM\<close> or \<open>reader.parse()\<close> throw
  or is parsed to an article or to \<open>null\<close>.
\<close>

record Article =
  article_title :: string
  textContent :: string
  article_excerpt :: string
  article_length :: nat

datatype page =
    PageThrows exn
  | Parsed "Article option"

datatype fetched =
    FetchThrows exn
  | Response bool nat "string option" page

definition MAX_RETRIES :: nat where
  "MAX_RETRIES = 2"

definition RETRY_DELAY :: nat where
  "RETRY_DELAY = 1000"

definition FETCH_TIMEOUT :: nat where
  "FETCH_TIMEOUT = 15000"

text \<open>A natural number in a template literal.\<close>

fun decimal :: "nat \<Rightarrow> string" where
  "decimal n =
     (if n < 10 then [''0123456789'' ! n]
      else decimal (n div 10) @ [''0123456789'' ! (n mod 10)])"

text \<open>\<open>String.prototype.includes\<close>\<close>

fun str_includes :: "string \<Rightarrow> string \<Rightarrow> bool" where
  "str_includes [] sub = (sub = [])"
| "str_includes (c # cs) sub = (prefix sub (c # cs) \<or> str_includes cs sub)"

text \<open>\<open>String.prototype.trim\<close>, for the white space that fits in one byte.\<close>

definition white_space :: "char \<Rightarrow> bool" where
  "white_space c = (c \<in> {CHR 0x09, CHR 0x0A, CHR 0x0B, CHR 0x0C, CHR 0x0D, CHR 0x20})"

definition trim :: "string \<Rightarrow> string" where
  "trim s = rev (dropWhile white_space (rev (dropWhile white_space s)))"

text \<open>The message that the \<open>catch\<close> block records.\<close>

fun fetch_error_message :: "exn \<Rightarrow> string" where
  "fetch_error_message (JsError n m) =
     (if n = ''AbortError''
      then ''Fetch timed out after '' @ decimal (FETCH_TIMEOUT div 1000) @ ''s''
      else m)"
| "fetch_error_message (Thrown v) = ''Unknown error''"

definition failed :: "SearchResult \<Rightarrow> string \<Rightarrow> ExtractedContent" where
  "failed result errorMessage = \<lparr> url = result_url result, title = result_title result,
     content = [], excerpt = None, length' = None, error' = Some errorMessage \<rparr>"

text \<open>
  The body of the \<open>try\<close> block of one attempt: \<open>Inl\<close> when it throws, \<open>Inr\<close> when it
  assigns \<open>extracted\<close> and sets \<open>success\<close>.
\<close>

definition try_fetch :: "SearchResult \<Rightarrow> fetched \<Rightarrow> exn + ExtractedContent" where
  "try_fetch result f =
     (case f of
        FetchThrows e \<Rightarrow> Inl e
      | Response ok status header body \<Rightarrow>
          if \<not> ok
          then Inl (JsError ''Error'' (''HTTP error! status: '' @ decimal status @
                      '' for '' @ result_url result))
          else
            (let contentType = (if truthy header then the header else [])
             in if \<not> str_includes contentType ''text/html''
                then Inr (failed result (''Skipped non-HTML content type: '' @ contentType))
                else
                  (case body of
                     PageThrows e \<Rightarrow> Inl e
                   | Parsed article \<Rightarrow>
                       if article \<noteq> None \<and> textContent (the article) \<noteq> []
                       then Inr \<lparr> url = result_url result,
                                  title = (if article_title (the article) \<noteq> []
                                           then article_title (the article)
                                           else result_title result),
                                  content = trim (textContent (the article)),
                                  excerpt = Some (article_excerpt (the article)),
                                  length' = Some (article_length (the article)),
                                  error' = None \<rparr>
                       else Inl (JsError ''Error''
                              (''Readability could not extract content from '' @
                                 result_url result)))))"

text \<open>
  The variables of the retry loop, and the delays that were awaited so far, in
  milliseconds.
\<close>

record loop_state =
  attempt :: nat
  success :: bool
  extracted :: "ExtractedContent option"
  delays :: "nat list"

definition initial :: loop_state where
  "initial = \<lparr> attempt = 0, success = False, extracted = None, delays = [] \<rparr>"

text \<open>The body of the \<open>while\<close> loop; \<open>fetch n\<close> is the outcome of attempt \<open>n\<close>.\<close>

definition fetch_attempt :: "(nat \<Rightarrow> fetched) \<Rightarrow> SearchResult \<Rightarrow> loop_state \<Rightarrow> loop_state" where
  "fetch_attempt fetch result s =
     (let s1 = s \<lparr> attempt := attempt s + 1 \<rparr>
      in case try_fetch result (fetch (attempt s1)) of
           Inr e \<Rightarrow> s1 \<lparr> extracted := Some e, success := True \<rparr>
         | Inl err \<Rightarrow>
             s1 \<lparr> extracted := Some (failed result (fetch_error_message err)),
                  delays := delays s1 @
                    (if attempt s1 \<le> MAX_RETRIES then [RETRY_DELAY] else []) \<rparr>)"

function fetch_loop :: "(nat \<Rightarrow> fetched) \<Rightarrow> SearchResult \<Rightarrow> loop_state \<Rightarrow> loop_state" where
  "fetch_loop fetch result s =
     (if attempt s < MAX_RETRIES + 1 \<and> \<not> success s
      then fetch_loop fetch result (fetch_attempt fetch result s)
      else s)"
  by pat_completeness auto
termination
  by (relation "measure (\<lambda>(fetch, result, s). MAX_RETRIES + 1 - attempt s)")
     (auto simp: fetch_attempt_def Let_def split: sum.splits)

declare fetch_loop.simps [simp del]

record SearchResultsObtainedPayload =
  extractor_traceId :: string
  results :: "SearchResult list"
  errors :: "string list"

text \<open>
  \<open>for (const result of payload.results)\<close>; \<open>fetch i\<close> gives the outcomes of the
  attempts at the \<open>i\<close>-th result.
\<close>

fun extract_all ::
  "(nat \<Rightarrow> nat \<Rightarrow> fetched) \<Rightarrow> nat \<Rightarrow> ExtractedContent list \<Rightarrow> SearchResult list
     \<Rightarrow> ExtractedContent list" where
  "extract_all fetch i extractedContents [] = extractedContents"
| "extract_all fetch i extractedContents (result # rest) =
     (if result_url result = [] then extract_all fetch (Suc i) extractedContents rest
      else
        (let s = fetch_loop (fetch i) result initial
         in extract_all fetch (Suc i)
              (case extracted s of
                 Some e \<Rightarrow> extractedContents @ [e]
               | None \<Rightarrow> extractedContents)
              rest))"

definition content_extractor ::
  "step_context \<Rightarrow> (nat \<Rightarrow> nat \<Rightarrow> fetched) \<Rightarrow> SearchResultsObtainedPayload \<Rightarrow> run" where
  "content_extractor ctx fetch payload =
     (let tid = extractor_traceId payload;
          extractedContents = extract_all fetch 0 [] (results payload)
      in andThen (state_set ctx (tid @ '':extracted_content'') (AContent extractedContents))
                 (emit ctx ''content.extracted'' (ContentExtracted tid extractedContents)))"

text \<open>
  The outcome of an attempt, read off the response alone: it got text, or it met a
  content type that is not HTML.
\<close>

fun got_text :: "fetched \<Rightarrow> bool" where
  "got_text (Response ok status header (Parsed (Some a))) =
     (ok \<and> str_includes (if truthy header then the header else []) ''text/html'' \<and>
      textContent a \<noteq> [])"
| "got_text f = False"

fun not_html :: "fetched \<Rightarrow> bool" where
  "not_html (Response ok status header body) =
     (ok \<and> \<not> str_includes (if truthy header then the header else []) ''text/html'')"
| "not_html f = False"

text \<open>
  A URL fails extraction when none of its attempts gets text: the first attempt that
  does not throw meets a content type that is not HTML, or all three attempts throw.
\<close>

definition url_fails :: "(nat \<Rightarrow> fetched) \<Rightarrow> bool" where
  "url_fails fetch =
     (\<not> got_text (fetch 1) \<and>
      (not_html (fetch 1) \<or>
       \<not> got_text (fetch 2) \<and>
       (not_html (fetch 2) \<or> \<not> got_text (fetch 3))))"

text \<open>Sample search results and fetch outcomes.\<close>

definition sample_result :: SearchResult where
  "sample_result = \<lparr> result_url = ''https://a.example/x'', result_title = ''A'',
     result_id = ''1'', publishedDate = None, author = None, result_score = Some (9 / 10) \<rparr>"

definition sample_article :: Article where
  "sample_article = \<lparr> article_title = ''Paper'', textContent = '' Body text '',
     article_excerpt = ''Body'', article_length = 11 \<rparr>"

definition html_page :: "Article option \<Rightarrow> fetched" where
  "html_page a = Response True 200 (Some ''text/html; charset=utf-8'') (Parsed a)"

text \<open>The first attempt yields no text, the second one the article.\<close>

definition no_text_then_article :: "nat \<Rightarrow> fetched" where
  "no_text_then_article n = (if n = 1 then html_page None else html_page (Some sample_article))"

definition always_times_out :: "nat \<Rightarrow> fetched" where
  "always_times_out n = FetchThrows (JsError ''AbortError'' ''The user aborted a request.'')"

definition pdf :: "nat \<Rightarrow> fetched" where
  "pdf n = Response True 200 (Some ''application/pdf'') (Parsed None)"

text \<open>The entry that the retry loop leaves for a result.\<close>

definition entry_of :: "(nat \<Rightarrow> fetched) \<Rightarrow> SearchResult \<Rightarrow> ExtractedContent" where
  "entry_of f r = the (extracted (fetch_loop f r initial))"

definition sample_fetch :: "nat \<Rightarrow> nat \<Rightarrow> fetched" where
  "sample_fetch i =
     (if i = 0 then no_text_then_article else if i = 1 then always_times_out else pdf)"

definition sample_results :: SearchResultsObtainedPayload where
  "sample_results = \<lparr> extractor_traceId = ''t1'',
     results = [sample_result,
                sample_result \<lparr> result_url := ''https://b.example/y'' \<rparr>,
                sample_result \<lparr> result_url := ''https://c.example/z.pdf'' \<rparr>],
     errors = [] \<rparr>"

definition blank_url :: SearchResultsObtainedPayload where
  "blank_url = \<lparr> extractor_traceId = ''t1'',
     results = [sample_result \<lparr> result_url := [] \<rparr>], errors = [] \<rparr>"

subsection \<open>Strings in a completion\<close>

text \<open>\<open>xs.filter(q => typeof q === 'string')\<close>\<close>

fun strings_of :: "json list \<Rightarrow> string list" where
  "strings_of [] = []"
| "strings_of (JString s # xs) = s # strings_of xs"
| "strings_of (x # xs) = strings_of xs"

fun isArray :: "json \<Rightarrow> bool" where
  "isArray (JArray xs) = True"
| "isArray j = False"

definition dquote :: char where
  "dquote = CHR 0x22"

text \<open>
  \<open>s.match(/"(.*?)"/g)?.map(q => q.replace(/"/g, '')) || []\<close>.  After an opening
  quote, \<open>until_quote\<close> reads up to the next quote; the dot of the pattern does not
  match a line terminator, so a line end before the closing quote gives no match at this
  opening quote, and the search goes on behind it.
\<close>

definition line_terminator :: "char \<Rightarrow> bool" where
  "line_terminator c = (c = CHR 0x0A \<or> c = CHR 0x0D)"

fun until_quote :: "string \<Rightarrow> (string \<times> string) option" where
  "until_quote [] = None"
| "until_quote (c # cs) =
     (if c = dquote then Some ([], cs)
      else if line_terminator c then None
      else (case until_quote cs of
              None \<Rightarrow> None
            | Some (inner, rest) \<Rightarrow> Some (c # inner, rest)))"

function match_quoted :: "string \<Rightarrow> string list" where
  "match_quoted [] = []"
| "match_quoted (c # cs) =
     (if c = dquote
      then (case until_quote cs of
              Some (inner, rest) \<Rightarrow> inner # match_quoted rest
            | None \<Rightarrow> match_quoted cs)
      else match_quoted cs)"
  by pat_completeness auto
termination
proof (relation "measure length")
  have shorter: "until_quote cs = Some (inner, rest) \<Longrightarrow> length rest < length cs"
    for cs inner rest
    by (induction cs arbitrary: inner) (auto split: if_splits option.splits)
  fix c cs x2 x y
  assume "c = dquote" "until_quote cs = Some x2" "(x, y) = x2"
  then show "(y, c # cs) \<in> measure length"
    using shorter[of cs x y] by simp
qed auto

subsection \<open>query-generator\<close>

text \<open>The handler of the query-generator step, \<^verbatim>\<open>src/unnamed/part_007\<close> (its first file).\<close>

record TopicSeededPayload =
  seeded_traceId :: string
  topic :: string

text \<open>The branches of the \<open>try\<close> block that reads the queries off the parsed value.\<close>

fun queries_of :: "json \<Rightarrow> exn + string list" where
  "queries_of (JArray xs) = Inr (strings_of xs)"
| "queries_of (JObject kv) =
     (case map_of kv ''queries'' of
        Some (JArray xs) \<Rightarrow> Inr (strings_of xs)
      | _ \<Rightarrow> Inl (JsError ''Error''
                 ''Could not find expected queries array in OpenAI JSON response.''))"
| "queries_of JNull = Inl (JsError ''TypeError'' ''Cannot read properties of null'')"
| "queries_of j = Inl (JsError ''Error''
                 ''Could not find expected queries array in OpenAI JSON response.'')"

text \<open>
  "Parse the JSON response": strict parse, then the array under \<open>queries\<close>; when the
  \<open>try\<close> block throws, the quoted substrings of the raw text; at the end the test that
  there is a query at all.
\<close>

definition extract_queries :: "json openai_env \<Rightarrow> string \<Rightarrow> exn + string list" where
  "extract_queries env rawQueries =
     (case (case (case JSON_parse env rawQueries of
                    Inl e \<Rightarrow> Inl e
                  | Inr parsedResponse \<Rightarrow> queries_of parsedResponse) of
              Inr generatedQueries \<Rightarrow> Inr generatedQueries
            | Inl parseError \<Rightarrow>
                (let generatedQueries = match_quoted rawQueries
                 in if generatedQueries = []
                    then Inl (JsError ''Error''
                           (''Could not parse or extract queries from OpenAI response: '' @
                              rawQueries))
                    else Inr generatedQueries)) of
        Inl e \<Rightarrow> Inl e
      | Inr generatedQueries \<Rightarrow>
          if generatedQueries = []
          then Inl (JsError ''Error'' ''No valid queries were generated or extracted.'')
          else Inr generatedQueries)"

definition query_generator ::
  "step_context \<Rightarrow> json openai_env \<Rightarrow> TopicSeededPayload \<Rightarrow> run" where
  "query_generator ctx env payload =
     (let tid = seeded_traceId payload in
      if \<not> truthy (OPENAI_API_KEY env)
      then emit ctx ''workflow.error''
             (WorkflowError tid ''query-generator'' ''Missing OpenAI API Key'')
      else tryCatch
             (case chat env 0 of
                ApiThrows e \<Rightarrow> throw e
              | Content rawQueries \<Rightarrow>
                  if \<not> truthy rawQueries
                  then throw (JsError ''Error'' ''OpenAI response content is empty.'')
                  else (case extract_queries env (the rawQueries) of
                          Inl e \<Rightarrow> throw e
                        | Inr generatedQueries \<Rightarrow>
                            andThen
                              (state_set ctx (tid @ '':generated_queries'')
                                 (AStrings generatedQueries))
                              (emit ctx ''queries.generated''
                                 (QueriesGenerated tid generatedQueries))))
             (\<lambda>e. emit ctx ''workflow.error''
                (WorkflowError tid ''query-generator'' (message_or_String e))))"

text \<open>
  The strings that strict parsing finds: the string elements of a root array, or of the
  array under \<open>queries\<close> of a root object.
\<close>

definition strict_strings :: "json openai_env \<Rightarrow> string \<Rightarrow> string list" where
  "strict_strings env raw =
     (case JSON_parse env raw of
        Inr (JArray xs) \<Rightarrow> strings_of xs
      | Inr (JObject kv) \<Rightarrow>
          (case map_of kv ''queries'' of Some (JArray xs) \<Rightarrow> strings_of xs | _ \<Rightarrow> [])
      | _ \<Rightarrow> [])"

fun is_set :: "string \<Rightarrow> action \<Rightarrow> bool" where
  "is_set key (StateSet k v) = (k = key)"
| "is_set key a = False"

fun is_emit :: "string \<Rightarrow> action \<Rightarrow> bool" where
  "is_emit t (Emit t' d) = (t' = t)"
| "is_emit t a = False"

subsection \<open>exa-searcher\<close>

text \<open>The handler of \<^verbatim>\<open>steps/exa-searcher.event.step.ts\<close>.\<close>

record QueriesGeneratedPayload =
  searcher_traceId :: string
  queries :: "string list"

text \<open>
  \<open>searchAndContents i\<close> is the outcome of the \<open>i\<close>-th call of
  \<open>exa.searchAndContents\<close>: it throws, or it yields \<open>results.results\<close>, which may be
  undefined, with each result already at the type \<open>SearchResult\<close>.
\<close>

record exa_env =
  EXA_API_KEY :: "string option"
  searchAndContents :: "nat \<Rightarrow> exn + SearchResult list option"

fun search_loop ::
  "exa_env \<Rightarrow> nat \<Rightarrow> SearchResult list \<times> string list \<Rightarrow> string list
     \<Rightarrow> SearchResult list \<times> string list" where
  "search_loop env i acc [] = acc"
| "search_loop env i (allResults, errs) (query # rest) =
     search_loop env (Suc i)
       (case searchAndContents env i of
          Inr found \<Rightarrow>
            if found \<noteq> None \<and> the found \<noteq> []
            then (allResults @ the found, errs)
            else (allResults, errs)
        | Inl e \<Rightarrow>
            (allResults,
             errs @ [''Query: '' @ [dquote] @ query @ [dquote] @ '' - Error: '' @
                       message_or_String e]))
       rest"

definition exa_searcher ::
  "step_context \<Rightarrow> exa_env \<Rightarrow> QueriesGeneratedPayload \<Rightarrow> run" where
  "exa_searcher ctx env payload =
     (let tid = searcher_traceId payload in
      if \<not> truthy (EXA_API_KEY env)
      then emit ctx ''workflow.error''
             (WorkflowError tid ''exa-searcher'' ''Missing Exa API Key'')
      else
        (let (allResults, errs) = search_loop env 0 ([], []) (queries payload)
         in if allResults = []
            then emit ctx ''workflow.error''
                   (WorkflowError tid ''exa-searcher''
                      (if errs \<noteq> []
                       then ''Failed to get results for any query. First error: '' @ hd errs
                       else ''No search results found for any query.''))
            else andThen
                   (state_set ctx (tid @ '':exa_search_results'') (ASearchResults allResults))
                   (emit ctx ''search_results.obtained''
                      (SearchResultsObtained tid allResults errs))))"

subsection \<open>question-brainstormer\<close>

text \<open>The handler of \<^verbatim>\<open>steps/question-brainstormer.event.step.ts\<close>.\<close>

record ContentExtractedPayload =
  brainstormer_traceId :: string

text \<open>
  The parsing of the completion: a root array, the array under \<open>questions\<close>, or the
  first array among the values of the root object; then the strings among its elements.
\<close>

fun questions_array :: "json \<Rightarrow> exn + json list" where
  "questions_array (JArray xs) = Inr xs"
| "questions_array (JObject kv) =
     (case map_of kv ''questions'' of
        Some (JArray xs) \<Rightarrow> Inr xs
      | _ \<Rightarrow>
          (case find isArray (map snd kv) of
             Some (JArray xs) \<Rightarrow> Inr xs
           | _ \<Rightarrow> Inl (JsError ''Error''
                      ''Could not find a JSON array of questions in the response.'')))"
| "questions_array JNull = Inl (JsError ''TypeError'' ''Cannot read properties of null'')"
| "questions_array j =
     Inl (JsError ''Error'' ''Could not find a JSON array of questions in the response.'')"

definition parse_questions :: "json openai_env \<Rightarrow> string \<Rightarrow> exn + string list" where
  "parse_questions env responseContent =
     (case (case JSON_parse env responseContent of
              Inl e \<Rightarrow> Inl e
            | Inr parsedJson \<Rightarrow>
                (case questions_array parsedJson of
                   Inl e \<Rightarrow> Inl e
                 | Inr xs \<Rightarrow>
                     if strings_of xs = []
                     then Inl (JsError ''Error''
                            ''OpenAI response parsed, but no questions found in the array.'')
                     else Inr (strings_of xs))) of
        Inl parseError \<Rightarrow>
          Inl (JsError ''Error'' (''Failed to parse OpenAI JSON response: '' @
                 message_or ''Unknown parsing error'' parseError))
      | Inr generatedQuestions \<Rightarrow> Inr generatedQuestions)"

text \<open>
  The artifact under an \<open>extracted_content\<close> key is a list of extracted contents;
  anything else there counts as absent.
\<close>

fun content_list :: "artifact option \<Rightarrow> ExtractedContent list option" where
  "content_list (Some (AContent xs)) = Some xs"
| "content_list a = None"

text \<open>
  The \<open>try\<close> block of the handler.  The text that it builds from the extracted content
  goes into the prompt only; the completion is whatever \<open>chat 0\<close> is.
\<close>

definition brainstorm :: "step_context \<Rightarrow> json openai_env \<Rightarrow> ContentExtractedPayload \<Rightarrow> run" where
  "brainstorm ctx env payload =
     (let tid = brainstormer_traceId payload;
          seedTopicKey = tid @ '':seed_topic'';
          contentKey = tid @ '':extracted_content''
      in case state_get ctx seedTopicKey of
           Inl e \<Rightarrow> throw e
         | Inr seed \<Rightarrow>
            (case state_get ctx contentKey of
               Inl e \<Rightarrow> throw e
             | Inr extractedContent \<Rightarrow>
                 if seed = None
                 then throw (JsError ''Error''
                        (''Seed topic not found or invalid in state for key: '' @ seedTopicKey))
                 else if content_list extractedContent = None \<or>
                         the (content_list extractedContent) = []
                 then throw (JsError ''Error''
                        (''Extracted content not found or empty in state for key: '' @
                           contentKey))
                 else
                   (case chat env 0 of
                      ApiThrows e \<Rightarrow> throw e
                    | Content responseContent \<Rightarrow>
                        if \<not> truthy responseContent
                        then throw (JsError ''Error'' ''OpenAI response content was empty.'')
                        else
                          (case parse_questions env (the responseContent) of
                             Inl e \<Rightarrow> throw e
                           | Inr generatedQuestions \<Rightarrow>
                               andThen
                                 (state_set ctx (tid @ '':generated_questions'')
                                    (AStrings generatedQuestions))
                                 (emit ctx ''questions.generated''
                                    (QuestionsGenerated tid generatedQuestions))))))"

text \<open>A \<open>try\<close> whose \<open>catch\<close> only logs.\<close>

definition swallow :: "run \<Rightarrow> run" where
  "swallow r = (fst r, None)"

definition question_brainstormer ::
  "step_context \<Rightarrow> json openai_env \<Rightarrow> ContentExtractedPayload \<Rightarrow> run" where
  "question_brainstormer ctx env payload =
     (let tid = brainstormer_traceId payload in
      if \<not> truthy (OPENAI_API_KEY env)
      then emit ctx ''workflow.error''
             (WorkflowError tid ''question-brainstormer'' ''Missing OpenAI API Key'')
      else tryCatch (brainstorm ctx env payload)
             (\<lambda>e. swallow (emit ctx ''workflow.error''
                (WorkflowError tid ''question-brainstormer''
                   (message_or ''Unknown error in question-brainstormer'' e)))))"

subsection \<open>report-retriever\<close>

text \<open>The handler of \<^verbatim>\<open>steps/report-retriever.api.step.ts\<close>.\<close>

record ReportRetrieverInput =
  queryParams_traceId :: "string option"

datatype response_body =
    Stored artifact
  | ErrorBody string

record ApiResponse =
  http_status :: nat
  http_headers :: "(string \<times> string) list"
  http_body :: response_body

text \<open>\<open>if (report)\<close>: a stored object or array is truthy, a stored string unless empty.\<close>

fun truthy_artifact :: "artifact option \<Rightarrow> bool" where
  "truthy_artifact None = False"
| "truthy_artifact (Some (AString s)) = (s \<noteq> [])"
| "truthy_artifact (Some a) = True"

definition report_retriever :: "step_context \<Rightarrow> ReportRetrieverInput \<Rightarrow> ApiResponse" where
  "report_retriever ctx input =
     (let traceId = queryParams_traceId input;
          headers = [(''Content-Type'', ''application/json'')]
      in if traceId = None \<or> the traceId = []
         then \<lparr> http_status = 400, http_headers = headers,
                http_body = ErrorBody ''Valid traceId is required'' \<rparr>
         else
           (case state_get ctx (the traceId @ '':final_report'') of
              Inr report \<Rightarrow>
                if truthy_artifact report
                then \<lparr> http_status = 200, http_headers = headers,
                       http_body = Stored (the report) \<rparr>
                else \<lparr> http_status = 404, http_headers = headers,
                       http_body = ErrorBody
                         ''Report not found. It might still be processing or the traceId is invalid.'' \<rparr>
            | Inl e \<Rightarrow>
                \<lparr> http_status = 500, http_headers = headers,
                  http_body = ErrorBody
                    ''An internal server error occurred while retrieving the report.'' \<rparr>))"

subsection \<open>Persist before emit\<close>

text \<open>
  In a log, every emit of \<open>topic\<close> comes after a \<open>state.set\<close> under \<open>key\<close>.
\<close>

definition persisted_before :: "string \<Rightarrow> string \<Rightarrow> action list \<Rightarrow> bool" where
  "persisted_before key t acts =
     (\<forall>i < length acts. is_emit t (acts ! i) \<longrightarrow> (\<exists>j < i. is_set key (acts ! j)))"

text \<open>Requests to the report endpoint, and the stores they meet.\<close>

definition unknown_id :: ReportRetrieverInput where
  "unknown_id = \<lparr> queryParams_traceId = Some ''no-such-trace'' \<rparr>"

definition empty_id :: ReportRetrieverInput where
  "empty_id = \<lparr> queryParams_traceId = Some [] \<rparr>"

text \<open>The store after the writes of a log.\<close>

fun apply_sets :: "action list \<Rightarrow> (string \<Rightarrow> artifact option) \<Rightarrow> (string \<Rightarrow> artifact option)" where
  "apply_sets [] st = st"
| "apply_sets (StateSet k v # acts) st = apply_sets acts (st(k \<mapsto> v))"
| "apply_sets (a # acts) st = apply_sets acts st"

definition after_compiling :: step_context where
  "after_compiling = later \<lparr> store :=
     apply_sets (fst (snd (report_compiler later sample_heap sample_payload))) (store later) \<rparr>"

definition store_down :: step_context where
  "store_down = quiet \<lparr> get_fails := (\<lambda>k. Some (JsError ''Error'' ''ECONNREFUSED'')) \<rparr>"

definition known_id :: ReportRetrieverInput where
  "known_id = \<lparr> queryParams_traceId = Some ''t1'' \<rparr>"

text \<open>Completions for query-generator: \<open>[]\<close> parses to the empty array, anything else does not parse.\<close>

definition generator_env :: "string \<Rightarrow> json openai_env" where
  "generator_env raw = \<lparr>
     OPENAI_API_KEY = Some ''sk'',
     chat = (\<lambda>i. Content (Some raw)),
     JSON_parse = (\<lambda>s. if s = ''[]'' then Inr (JArray [])
                        else Inl (JsError ''SyntaxError'' ''Unexpected token'')) \<rparr>"

definition prose_reply :: string where
  "prose_reply = ''Try '' @ [dquote] @ ''q1'' @ [dquote] @ '' or '' @ [dquote] @ ''q2'' @ [dquote]"

definition seeded :: TopicSeededPayload where
  "seeded = \<lparr> seeded_traceId = ''t1'', topic = ''Quantum computing'' \<rparr>"

text \<open>A search with one result and one failing query, and a brainstorming run.\<close>

definition sample_exa :: exa_env where
  "sample_exa = \<lparr> EXA_API_KEY = Some ''exa'',
     searchAndContents = (\<lambda>i. if i = 0 then Inr (Some [sample_result])
                               else Inl (JsError ''Error'' ''rate limit'')) \<rparr>"

definition sample_queries :: QueriesGeneratedPayload where
  "sample_queries = \<lparr> searcher_traceId = ''t1'', queries = [''q1'', ''q2''] \<rparr>"

definition ideas_env :: "json openai_env" where
  "ideas_env = \<lparr> OPENAI_API_KEY = Some ''sk'',
     chat = (\<lambda>i. Content (Some ''{...}'')),
     JSON_parse = (\<lambda>s. Inr (JObject [(''count'', JNumber (Finite 2)),
                      (''ideas'', JArray [JString ''Why?'', JNumber (Finite 3), JString ''How?''])])) \<rparr>"

definition after_extracting :: step_context where
  "after_extracting = quiet \<lparr> store :=
     [''t1:seed_topic'' \<mapsto> AString ''Quantum computing'',
      ''t1:extracted_content'' \<mapsto> AContent [failed sample_result ''Fetch timed out after 15s'']] \<rparr>"

definition extracted_event :: ContentExtractedPayload where
  "extracted_event = \<lparr> brainstormer_traceId = ''t1'' \<rparr>"

section \<open>Properties\<close>

subsection \<open>The comparator sort\<close>

lemma set_insert_cmp: "set (insert_cmp cmp x ys) = insert x (set ys)"
  by (induction ys) auto

lemma length_insert_cmp: "length (insert_cmp cmp x ys) = Suc (length ys)"
  by (induction ys) auto


lemma length_sort_cmp: "length (sort_cmp cmp xs) = length xs"
  by (induction xs) (auto simp: length_insert_cmp)

lemma non_increasing_insert:
  "non_increasing ys \<Longrightarrow> non_increasing (insert_cmp by_score_desc x ys)"
proof (induction ys)
  case Nil
  then show ?case by (simp add: non_increasing_def)
next
  case (Cons y ys)
  then show ?case
    by (auto simp: non_increasing_def by_score_desc_def set_insert_cmp)
qed

lemma non_increasing_sort: "non_increasing (sort_cmp by_score_desc xs)"
  by (induction xs) (simp_all add: non_increasing_insert, simp add: non_increasing_def)



subsection \<open>What report-compiler stores\<close>

lemma compile_report_heap:
  assumes "evaluatedQuestions payload < length h"
  shows "fst (compile_report ctx h payload) =
     (case get_fails ctx (payload_traceId payload @ '':seed_topic'') of
        Some e \<Rightarrow> h
      | None \<Rightarrow> h @ [sort_cmp by_score_desc (filter not_error (h ! evaluatedQuestions payload)),
                 ranked (h ! evaluatedQuestions payload)])"
  using assms
  by (simp add: compile_report_def state_get_def array_filter_def array_sort_def
      array_slice_def alloc_def ranked_def Let_def nth_append split: option.splits)

lemma compile_report_run:
  assumes "evaluatedQuestions payload < length h"
  shows "snd (compile_report ctx h payload) =
     (case get_fails ctx (payload_traceId payload @ '':seed_topic'') of
        Some e \<Rightarrow> throw e
      | None \<Rightarrow>
         (let r = report_of ctx (payload_traceId payload) (h ! evaluatedQuestions payload)
          in andThen (state_set ctx (payload_traceId payload @ '':final_report'') (AReport r))
               (emit ctx ''report.generated'' (ReportGenerated (payload_traceId payload) r))))"
  using assms
  by (simp add: compile_report_def state_get_def array_filter_def array_sort_def
      array_slice_def alloc_def ranked_def report_of_def Let_def nth_append split: option.splits)










subsection \<open>Stability of the ranking, and the heap\<close>

lemma filter_insert_cmp_same:
  "overallScore x = s \<Longrightarrow>
   filter (\<lambda>q. overallScore q = s) (insert_cmp by_score_desc x ys) =
     x # filter (\<lambda>q. overallScore q = s) ys"
  by (induction ys) (auto simp: by_score_desc_def)

lemma filter_insert_cmp_other:
  "overallScore x \<noteq> s \<Longrightarrow>
   filter (\<lambda>q. overallScore q = s) (insert_cmp by_score_desc x ys) =
     filter (\<lambda>q. overallScore q = s) ys"
  by (induction ys) (auto simp: by_score_desc_def)

lemma sort_cmp_stable:
  "filter (\<lambda>q. overallScore q = s) (sort_cmp by_score_desc xs) =
   filter (\<lambda>q. overallScore q = s) xs"
  by (induction xs) (simp_all add: filter_insert_cmp_same filter_insert_cmp_other)



lemma non_increasing_Cons:
  "non_increasing (q # qs) \<longleftrightarrow> (\<forall>x \<in> set qs. overallScore x \<le> overallScore q) \<and> non_increasing qs"
  by (simp add: non_increasing_def)

text \<open>
  A list that is ordered by descending score and keeps, for every score, the entries of
  that score in their input order is determined by the input: it is the result of
  \<open>sort_cmp\<close>.  So the ranking does not depend on which stable sorting algorithm the
  engine runs.
\<close>

lemma stable_sorted_unique:
  assumes "non_increasing ys" "non_increasing zs"
    and "\<And>s. filter (\<lambda>q. overallScore q = s) ys = filter (\<lambda>q. overallScore q = s) zs"
  shows "ys = zs"
  using assms
proof (induction ys arbitrary: zs)
  case Nil
  show ?case
  proof (cases zs)
    case (Cons z zs')
    have "filter (\<lambda>q. overallScore q = overallScore z) zs \<noteq> []"
      by (simp add: Cons)
    with Nil.prems(3)[of "overallScore z"] show ?thesis by simp
  qed simp
next
  case (Cons y ys)
  let ?at = "\<lambda>s qs. filter (\<lambda>q. overallScore q = s) qs"
  have ys_head: "?at (overallScore y) (y # ys) = y # ?at (overallScore y) ys"
    by simp
  show ?case
  proof (cases zs)
    case Nil
    with Cons.prems(3)[of "overallScore y"] ys_head show ?thesis by simp
  next
    case zs: (Cons z zs')
    have zs_head: "?at (overallScore z) zs = z # ?at (overallScore z) zs'"
      by (simp add: zs)
    have "y \<in> set (?at (overallScore y) zs)"
      using Cons.prems(3)[of "overallScore y"] ys_head by (metis list.set_intros(1))
    then have "y \<in> set zs" by (simp only: set_filter) simp
    then have le1: "overallScore y \<le> overallScore z"
      using Cons.prems(2) unfolding zs non_increasing_Cons by auto
    have "z \<in> set (?at (overallScore z) (y # ys))"
      using Cons.prems(3)[of "overallScore z"] zs_head by (metis list.set_intros(1))
    then have "z \<in> set (y # ys)" by (simp only: set_filter) simp
    then have le2: "overallScore z \<le> overallScore y"
      using Cons.prems(1) unfolding non_increasing_Cons by auto
    from le1 le2 have same: "overallScore z = overallScore y" by simp
    have heads: "y # ?at (overallScore y) ys = z # ?at (overallScore y) zs'"
      using Cons.prems(3)[of "overallScore y"] ys_head zs_head same by metis
    have head: "y = z"
      using heads by (rule list.inject[THEN iffD1, THEN conjunct1])
    have tail_same: "?at (overallScore y) ys = ?at (overallScore y) zs'"
      using heads by (rule list.inject[THEN iffD1, THEN conjunct2])
    have tails: "?at s ys = ?at s zs'" for s
    proof (cases "s = overallScore y")
      case True
      with tail_same show ?thesis by simp
    next
      case False
      then have "?at s (y # ys) = ?at s ys" "?at s zs = ?at s zs'"
        by (simp_all add: zs same)
      with Cons.prems(3)[of s] show ?thesis by metis
    qed
    have "non_increasing ys" "non_increasing zs'"
      using Cons.prems(1,2) unfolding zs non_increasing_Cons by simp_all
    then have "ys = zs'"
      using Cons.IH[of zs'] tails by blast
    with head show ?thesis by (simp add: zs)
  qed
qed

lemma sort_cmp_determined:
  assumes "non_increasing ys"
    and "\<And>s. filter (\<lambda>q. overallScore q = s) ys = filter (\<lambda>q. overallScore q = s) xs"
  shows "ys = sort_cmp by_score_desc xs"
proof (rule stable_sorted_unique)
  show "non_increasing ys" by (rule assms(1))
  show "non_increasing (sort_cmp by_score_desc xs)" by (rule non_increasing_sort)
  show "filter (\<lambda>q. overallScore q = s) ys =
        filter (\<lambda>q. overallScore q = s) (sort_cmp by_score_desc xs)" for s
    using assms(2)[of s] sort_cmp_stable[of s xs] by simp
qed

lemma report_compiler_heap:
  assumes "evaluatedQuestions payload < length h"
  shows "take (length h) (fst (report_compiler ctx h payload)) = h"
  using assms
  by (simp add: report_compiler_def case_prod_unfold compile_report_heap split: option.splits)

lemma report_compiler_heap_nth:
  assumes "evaluatedQuestions payload < length h"
  shows "fst (report_compiler ctx h payload) ! evaluatedQuestions payload = h ! evaluatedQuestions payload"
    "evaluatedQuestions payload < length (fst (report_compiler ctx h payload))"
  using assms
  by (simp_all add: report_compiler_def case_prod_unfold compile_report_heap nth_append split: option.splits)




text \<open>
  C10.  The handler leaves the array it was given as it was: the cell of the input
  reference, and every cell that existed before, has the same content after the run,
  since \<open>filter\<close> returns a fresh reference and \<open>sort\<close> writes to that one.
\<close>

theorem report_compiler_input_unchanged:
  assumes "evaluatedQuestions payload < length h"
  shows "fst (report_compiler ctx h payload) ! evaluatedQuestions payload
           = h ! evaluatedQuestions payload
       \<and> take (length h) (fst (report_compiler ctx h payload)) = h
       \<and> fst (array_filter h (evaluatedQuestions payload) not_error) \<noteq> evaluatedQuestions payload"
  using assms report_compiler_heap[OF assms] report_compiler_heap_nth(1)[OF assms]
  by (simp add: array_filter_def alloc_def)

theorem report_compiler_input_unchanged_witness:
  "evaluatedQuestions sample_payload < length sample_heap \<and>
   fst (report_compiler quiet sample_heap sample_payload) ! 0 = sample_heap ! 0 \<and>
   take 1 (fst (report_compiler quiet sample_heap sample_payload)) = sample_heap \<and>
   length (fst (report_compiler quiet sample_heap sample_payload)) = 3"
proof -
  have h: "evaluatedQuestions sample_payload < length sample_heap"
    by (simp add: sample_payload_def sample_heap_def)
  have l: "length (fst (report_compiler quiet sample_heap sample_payload)) = 3"
  proof -
    have "get_fails quiet (payload_traceId sample_payload @ '':seed_topic'') = None"
      by (simp add: quiet_def)
    then show ?thesis
      by (simp add: report_compiler_def case_prod_unfold compile_report_heap[OF h])
        (simp add: sample_heap_def)
  qed
  from report_compiler_input_unchanged[OF h, of quiet] h l show ?thesis
    by (simp add: sample_payload_def sample_heap_def)
qed

subsection \<open>Double arithmetic on small numbers\<close>

lemma floor_rat_numeral: "\<lfloor>numeral a / numeral b :: rat\<rfloor> = numeral a div numeral b"
  by (metis floor_divide_of_int_eq of_int_numeral)

lemma ceiling_rat_numeral: "\<lceil>numeral a / numeral b :: rat\<rceil> = - (- numeral a div numeral b)"
  using ceiling_divide_eq_div[of "numeral a" "numeral b"] by simp

lemmas double_eval = to_double_def floor_log2_def pow2_def round_half_even_def toFixed2_def
  bit_length.simps Let_def floor_rat_numeral ceiling_rat_numeral

lemma bit_length_le: "n < 2 ^ m \<Longrightarrow> bit_length n \<le> m"
proof (induction m arbitrary: n)
  case 0
  then show ?case by (simp add: bit_length.simps)
next
  case (Suc m)
  then have "n div 2 < 2 ^ m" by simp
  from Suc.IH[OF this] show ?case by (subst bit_length.simps) simp
qed

lemma round_half_even_of_int: "round_half_even (of_int j) = j"
  by (simp add: round_half_even_def)

text \<open>A positive rational below \<open>2 ^ 1024\<close> that is a whole number of units in the last place is a double.\<close>

lemma to_double_exact:
  assumes "0 < x" "x < 2 ^ 1024"
    and "x / pow2 (max (floor_log2 x - 52) (- 1074)) = of_int j"
  shows "to_double x = Finite x"
proof -
  let ?e = "max (floor_log2 x - 52) (- 1074)"
  have p: "pow2 ?e \<noteq> 0" by (simp add: pow2_def)
  have ax: "\<bar>x\<bar> = x" using assms(1) by simp
  have "x = of_int j * pow2 ?e" by (rule nonzero_divide_eq_eq[THEN iffD1, OF p assms(3)])
  then have y: "of_int (round_half_even (x / pow2 ?e)) * pow2 ?e = x"
    by (simp only: assms(3) round_half_even_of_int)
  have n: "\<not> 2 ^ 1024 \<le> x" "x \<noteq> 0" using assms(1,2) by linarith+
  show ?thesis
    by (simp only: to_double_def Let_def ax y n assms(1) if_False if_True)
qed

text \<open>The quarters from 1 up to 64 are doubles.\<close>

lemma to_double_quarters:
  assumes "4 \<le> k" "k < 256"
  shows "to_double (of_int k / 4) = Finite (of_int k / 4)"
proof -
  let ?x = "of_int k / 4 :: rat"
  let ?b = "bit_length (nat \<lfloor>?x\<rfloor>)"
  have x: "1 \<le> ?x" "?x < 64" using assms by simp_all
  have "\<lfloor>?x\<rfloor> < 64" using x(2) by (simp add: floor_less_iff)
  then have "nat \<lfloor>?x\<rfloor> < 64" by linarith
  then have "nat \<lfloor>?x\<rfloor> < 2 ^ 6" by simp
  then have b: "?b \<le> 6" by (rule bit_length_le)
  have fl: "floor_log2 ?x = int ?b - 1" using x(1) by (simp only: floor_log2_def if_True)
  define d where "d = 51 - ?b"
  define m where "m = d + 2"
  have e: "max (floor_log2 ?x - 52) (- 1074) = - int m" using b by (simp add: fl d_def m_def)
  have pw: "pow2 (- int m) = 1 / 2 ^ m" by (cases "m = 0") (simp_all add: pow2_def)
  have q: "?x / pow2 (max (floor_log2 ?x - 52) (- 1074)) = of_int (k * 2 ^ d)"
    unfolding e pw by (simp add: m_def)
  have pos: "0 < ?x" using x(1) by linarith
  have lt: "?x < 2 ^ 1024"
  proof -
    have "(2::rat) ^ 6 \<le> 2 ^ 1024" by (rule power_increasing) simp_all
    then have "(64::rat) \<le> 2 ^ 1024" by simp
    with x(2) show ?thesis by (rule less_le_trans)
  qed
  show ?thesis by (rule to_double_exact[OF pos lt q])
qed

lemma to_double_int:
  assumes "1 \<le> n" "n < 64"
  shows "to_double (of_int n) = Finite (of_int n)"
  using to_double_quarters[of "4 * n"] assms by simp

lemma toFixed2_quarter: "0 \<le> k \<Longrightarrow> toFixed2 (of_int k / 4) = of_int k / 4"
proof -
  assume k: "0 \<le> k"
  have "(of_int k / 4 :: rat) * 100 + 1 / 2 = of_int (25 * k) + 1 / 2" by simp
  moreover have "\<lfloor>(of_int (25 * k) :: rat) + 1 / 2\<rfloor> = 25 * k"
    by (rule floor_unique) simp_all
  ultimately show ?thesis using k by (simp add: toFixed2_def del: of_int_mult)
qed

text \<open>On integer scores from 1 to 10 every step of the computation is exact.\<close>

lemma overall_of_integers:
  assumes "1 \<le> a" "a \<le> 10" "1 \<le> b" "b \<le> 10" "1 \<le> c" "c \<le> 10" "1 \<le> d" "d \<le> 10"
  shows "overall_of_numbers (Finite (of_int a)) (Finite (of_int b)) (Finite (of_int c))
           (Finite (of_int d)) =
         Finite (mean4 (of_int a) (of_int b) (of_int c) (of_int d))"
proof -
  let ?k = "a + b + c + d"
  have s1: "num_add (Finite (of_int a)) (Finite (of_int b)) = Finite (of_int (a + b))"
    using to_double_int[of "a + b"] assms by simp
  have s2: "num_add (Finite (of_int (a + b))) (Finite (of_int c)) = Finite (of_int (a + b + c))"
    using to_double_int[of "a + b + c"] assms by simp
  have s3: "num_add (Finite (of_int (a + b + c))) (Finite (of_int d)) = Finite (of_int ?k)"
    using to_double_int[of ?k] assms by simp
  have td: "to_double (of_int ?k / 4) = Finite (of_int ?k / 4)"
    using assms by (intro to_double_quarters) simp_all
  have tf: "toFixed2 (of_int ?k / 4) = of_int ?k / 4"
    using assms by (intro toFixed2_quarter) simp
  have small: "\<not> 10 ^ 21 \<le> \<bar>of_int ?k / 4 :: rat\<bar>"
  proof -
    have "\<bar>of_int ?k / 4 :: rat\<bar> \<le> 10" using assms by simp
    moreover have "(10::rat) < 10 ^ 21" by simp
    ultimately show ?thesis by linarith
  qed
  have q: "div4 (Finite (of_int ?k)) = Finite (of_int ?k / 4)"
    by (simp only: div4.simps td)
  have r: "parseFloat_toFixed2 (Finite (of_int ?k / 4)) = Finite (of_int ?k / 4)"
    by (simp only: parseFloat_toFixed2.simps small if_False tf td)
  have "mean4 (of_int a) (of_int b) (of_int c) (of_int d) = (of_int ?k / 4 :: rat)"
    by (simp add: mean4_def)
  then show ?thesis
    by (simp only: overall_of_numbers_def s1 s2 s3 q r)
qed

lemma toFixed2_mean_of_integers:
  "0 \<le> a + b + c + d \<Longrightarrow>
   toFixed2 (mean4 (of_int a) (of_int b) (of_int c) (of_int d)) =
     mean4 (of_int a) (of_int b) (of_int c) (of_int d)"
  using toFixed2_quarter[of "a + b + c + d"] by (simp add: mean4_def)

lemma toFixed2_rounds: "rounded_to_2_places (toFixed2 x) x"
proof (cases "x < 0")
  case False
  define n where "n = \<lfloor>x * 100 + 1 / 2\<rfloor>"
  have r: "toFixed2 x = of_int n / 100" using False by (simp add: toFixed2_def n_def)
  have "of_int n \<le> x * 100 + 1 / 2" "x * 100 + 1 / 2 < of_int n + 1"
    unfolding n_def by linarith+
  then have "\<bar>of_int n / 100 - x\<bar> \<le> 1 / 200" by linarith
  then show ?thesis by (simp add: rounded_to_2_places_def r)
next
  case True
  define n where "n = \<lfloor>(- x) * 100 + 1 / 2\<rfloor>"
  have r: "toFixed2 x = - (of_int n / 100)" using True by (simp add: toFixed2_def n_def)
  have "of_int n \<le> (- x) * 100 + 1 / 2" "(- x) * 100 + 1 / 2 < of_int n + 1"
    unfolding n_def by linarith+
  then have "\<bar>- (of_int n / 100) - x\<bar> \<le> 1 / 200" by linarith
  moreover have "- (of_int n / 100) * 100 = (of_int (- n) :: rat)" by simp
  ultimately show ?thesis unfolding rounded_to_2_places_def r
    by (metis floor_of_int)
qed

subsection \<open>What question-judger stores\<close>

lemma judge_loop_eq:
  "judge_loop env i acc qs =
     acc @ map (\<lambda>(j, q). evaluate_question env j q) (List.enumerate i qs)"
  by (induction qs arbitrary: i acc) simp_all

lemma judge_loop_length: "length (judge_loop env 0 [] qs) = length qs"
  by (simp add: judge_loop_eq)

lemma judge_loop_nth:
  "i < length qs \<Longrightarrow> judge_loop env 0 [] qs ! i = evaluate_question env i (qs ! i)"
  by (simp add: judge_loop_eq nth_enumerate_eq)

lemma question_judger_stored:
  "StateSet key (AEvaluated evs) \<in> set (fst (question_judger ctx env payload))
   \<Longrightarrow> evs = judge_loop env 0 [] (questions payload)"
  by (auto simp: question_judger_def tryCatch_def andThen_def state_set_def emit_def throw_def
      state_get_def Let_def split: if_splits option.splits sum.splits)

lemma question_judger_stores:
  "truthy (OPENAI_API_KEY env) \<Longrightarrow>
   get_fails ctx (judged_traceId payload @ '':seed_topic'') = None \<Longrightarrow>
   set_fails ctx (judged_traceId payload @ '':evaluated_questions'') = None \<Longrightarrow>
   StateSet (judged_traceId payload @ '':evaluated_questions'')
      (AEvaluated (judge_loop env 0 [] (questions payload)))
     \<in> set (fst (question_judger ctx env payload))"
  by (auto simp: question_judger_def tryCatch_def andThen_def state_set_def emit_def throw_def
      state_get_def Let_def split: if_splits option.splits sum.splits)

text \<open>The properties of an object after \<open>assign\<close>.\<close>

lemma map_of_assign:
  "map_of (assign obj src) k =
     (case map_of src k of Some w \<Rightarrow> Some w | None \<Rightarrow> map_of obj k)"
proof -
  have a: "map_of (map (\<lambda>(k', v). (k', case map_of src k' of Some w \<Rightarrow> w | None \<Rightarrow> v)) obj) k =
             map_option (\<lambda>v. case map_of src k of Some w \<Rightarrow> w | None \<Rightarrow> v) (map_of obj k)"
    by (induction obj) (auto split: option.splits)
  have b: "map_of (filter (\<lambda>(k', w). map_of obj k' = None) xs) k =
             (if map_of obj k = None then map_of xs k else None)" for xs
    by (induction xs) auto
  show ?thesis
    by (simp add: assign_def map_add_def a b split: option.splits)
qed

lemma entry_other:
  "k \<noteq> ''question'' \<Longrightarrow> k \<noteq> ''overallScore'' \<Longrightarrow>
   map_of (assign (assign [(''question'', v)] kv) [(''overallScore'', w)]) k = map_of kv k"
  by (simp add: map_of_assign split: option.splits)

lemma entry_overallScore:
  "map_of (assign (assign [(''question'', v)] kv) [(''overallScore'', w)]) ''overallScore'' = Some w"
  by (simp add: map_of_assign)

lemma entry_question:
  "map_of (assign (assign [(''question'', v)] kv) [(''overallScore'', w)]) ''question'' =
     (case map_of kv ''question'' of Some x \<Rightarrow> Some x | None \<Rightarrow> Some v)"
  by (simp add: map_of_assign split: option.splits)

text \<open>
  An iteration whose \<open>try\<close> block completes pushes the question, overlaid with a parsed
  object that passed the validation, and the overall score; any other iteration pushes
  the error entry.
\<close>

lemma try_evaluate_Inr:
  assumes "try_evaluate env i q = Inr entry"
  shows "\<exists>kv overall. completed env i = Some (JObject kv) \<and>
           truthy_json (score_of (JObject kv) ''novelty'') \<and>
           truthy_json (score_of (JObject kv) ''feasibility'') \<and>
           truthy_json (score_of (JObject kv) ''impact'') \<and>
           truthy_json (score_of (JObject kv) ''crossDisciplinary'') \<and>
           overall_score env (JObject kv) = Inr overall \<and>
           entry = JObject (assign (assign [(''question'', JString q)] kv)
                     [(''overallScore'', JNumber (parseFloat_toFixed2 overall))])"
proof -
  from assms obtain c where c: "chat env i = Content c" "truthy c"
    by (auto simp: try_evaluate_def split: completion.splits if_splits)
  with assms obtain kv where kv: "parse_evaluation env (the c) = Inr kv"
    by (auto simp: try_evaluate_def split: sum.splits)
  with assms c obtain overall where o: "overall_score env (JObject kv) = Inr overall"
    "entry = JObject (assign (assign [(''question'', JString q)] kv)
                     [(''overallScore'', JNumber (parseFloat_toFixed2 overall))])"
    by (auto simp: try_evaluate_def split: sum.splits)
  from kv have p: "JSON_parse env (the c) = Inr (JObject kv)"
    "truthy_json (score_of (JObject kv) ''novelty'')"
    "truthy_json (score_of (JObject kv) ''feasibility'')"
    "truthy_json (score_of (JObject kv) ''impact'')"
    "truthy_json (score_of (JObject kv) ''crossDisciplinary'')"
    by (auto simp: parse_evaluation_def split: sum.splits json.splits if_splits)
  from c p(1) have "completed env i = Some (JObject kv)"
    by (simp add: completed_def)
  with p o show ?thesis by blast
qed

lemma evaluate_question_cases:
  obtains (failed) msg where "evaluate_question env i q = evaluation_error q msg"
  | (scored) kv overall where "completed env i = Some (JObject kv)"
      "truthy_json (score_of (JObject kv) ''novelty'')"
      "truthy_json (score_of (JObject kv) ''feasibility'')"
      "truthy_json (score_of (JObject kv) ''impact'')"
      "truthy_json (score_of (JObject kv) ''crossDisciplinary'')"
      "overall_score env (JObject kv) = Inr overall"
      "evaluate_question env i q =
         JObject (assign (assign [(''question'', JString q)] kv)
           [(''overallScore'', JNumber (parseFloat_toFixed2 overall))])"
proof (cases "try_evaluate env i q")
  case (Inl e)
  then show ?thesis by (auto simp: evaluate_question_def intro: failed)
next
  case (Inr entry)
  from try_evaluate_Inr[OF Inr] Inr show ?thesis
    by (auto simp: evaluate_question_def intro: scored)
qed

lemma error_entry_evaluation_error: "error_entry q (evaluation_error q msg)"
  by (simp add: error_entry_def evaluation_error_def)

lemma evaluate_question_kind:
  "scored_entry env i (evaluate_question env i q) \<or> error_entry q (evaluate_question env i q)"
proof (cases rule: evaluate_question_cases[of env i q])
  case (failed msg)
  then show ?thesis by (simp add: error_entry_evaluation_error)
next
  case (scored kv overall)
  then have "scored_entry env i (evaluate_question env i q)"
    by (simp add: scored_entry_def has_criterion_def carries_def score_of_def entry_other
        entry_overallScore)
  then show ?thesis ..
qed

lemma evaluate_question_question:
  assumes "\<not> carries env i ''question''"
  shows "get_prop (evaluate_question env i q) ''question'' = Some (JString q)"
proof (cases rule: evaluate_question_cases[of env i q])
  case (failed msg)
  then show ?thesis by (simp add: evaluation_error_def)
next
  case (scored kv overall)
  with assms show ?thesis by (simp add: carries_def entry_question)
qed

text \<open>
  C2 (as amended).  Every \<open>evaluated_questions\<close> artifact that question-judger stores
  has one entry for each input question, in the order of the input.  The entry at
  position \<open>i\<close> is the one that the \<open>i\<close>-th iteration makes of the \<open>i\<close>-th question and
  the \<open>i\<close>-th completion alone, whatever happened to the other questions.  It has the
  input question as its question, unless the parsed completion has a property
  \<open>question\<close> of its own.  It is either a scored entry (the four criteria of the parsed
  completion as they came, each with a truthy score, whether or not a justification came
  with it; the overall score computed from these scores; no error, unless the parsed
  completion has a property \<open>error\<close> of its own) or an error entry (the input question,
  an error message, the placeholder with score 0 on every criterion, overall score 0).
  When the API key is set and neither the read of the seed topic nor the write rejects,
  such an artifact is stored.

  The claim as first stated has no exception for what the completion carries: the entry
  is spread from the parsed completion, which nothing checks beyond the truthiness of
  its four scores.
\<close>

theorem question_judger_artifact:
  "(\<forall>evs. StateSet (judged_traceId payload @ '':evaluated_questions'') (AEvaluated evs)
             \<in> set (fst (question_judger ctx env payload)) \<longrightarrow>
      length evs = length (questions payload) \<and>
      (\<forall>i < length (questions payload).
         evs ! i = evaluate_question env i (questions payload ! i) \<and>
         (\<not> carries env i ''question'' \<longrightarrow>
            get_prop (evs ! i) ''question'' = Some (JString (questions payload ! i))) \<and>
         (scored_entry env i (evs ! i) \<or> error_entry (questions payload ! i) (evs ! i)))) \<and>
   (truthy (OPENAI_API_KEY env) \<and>
      get_fails ctx (judged_traceId payload @ '':seed_topic'') = None \<and>
      set_fails ctx (judged_traceId payload @ '':evaluated_questions'') = None \<longrightarrow>
      (\<exists>evs. StateSet (judged_traceId payload @ '':evaluated_questions'') (AEvaluated evs)
             \<in> set (fst (question_judger ctx env payload))))"
proof -
  have stored: "length evs = length (questions payload) \<and>
      (\<forall>i < length (questions payload).
         evs ! i = evaluate_question env i (questions payload ! i) \<and>
         (\<not> carries env i ''question'' \<longrightarrow>
            get_prop (evs ! i) ''question'' = Some (JString (questions payload ! i))) \<and>
         (scored_entry env i (evs ! i) \<or> error_entry (questions payload ! i) (evs ! i)))"
    if "StateSet (judged_traceId payload @ '':evaluated_questions'') (AEvaluated evs)
             \<in> set (fst (question_judger ctx env payload))" for evs
  proof -
    from that have evs: "evs = judge_loop env 0 [] (questions payload)"
      by (rule question_judger_stored)
    have "length evs = length (questions payload)"
      by (simp add: evs judge_loop_length)
    moreover have "evs ! i = evaluate_question env i (questions payload ! i) \<and>
         (\<not> carries env i ''question'' \<longrightarrow>
            get_prop (evs ! i) ''question'' = Some (JString (questions payload ! i))) \<and>
         (scored_entry env i (evs ! i) \<or> error_entry (questions payload ! i) (evs ! i))"
      if "i < length (questions payload)" for i
      using that evaluate_question_kind[of env i "questions payload ! i"]
        evaluate_question_question[of env i "questions payload ! i"]
      by (simp add: evs judge_loop_nth)
    ultimately show ?thesis by blast
  qed
  have stores: "\<exists>evs. StateSet (judged_traceId payload @ '':evaluated_questions'') (AEvaluated evs)
             \<in> set (fst (question_judger ctx env payload))"
    if "truthy (OPENAI_API_KEY env) \<and>
      get_fails ctx (judged_traceId payload @ '':seed_topic'') = None \<and>
      set_fails ctx (judged_traceId payload @ '':evaluated_questions'') = None"
    using that question_judger_stores by blast
  from stored stores show ?thesis by blast
qed

subsection \<open>The overall score\<close>

lemma overall_score_numbers:
  "score_of r ''novelty'' = Some (JNumber n) \<Longrightarrow>
   score_of r ''feasibility'' = Some (JNumber f) \<Longrightarrow>
   score_of r ''impact'' = Some (JNumber m) \<Longrightarrow>
   score_of r ''crossDisciplinary'' = Some (JNumber c) \<Longrightarrow>
   overall_score env r = Inr (div4 (num_add (num_add (num_add n f) m) c))"
  by (simp add: overall_score_def)

lemma overall_of_zeros: "overall_of_numbers (Finite 0) (Finite 0) (Finite 0) (Finite 0) = Finite 0"
  using toFixed2_quarter[of 0] by (simp add: overall_of_numbers_def to_double_def)

lemma evaluate_question_overall:
  assumes "score_of (evaluate_question env i q) ''novelty'' = Some (JNumber n)"
    "score_of (evaluate_question env i q) ''feasibility'' = Some (JNumber f)"
    "score_of (evaluate_question env i q) ''impact'' = Some (JNumber m)"
    "score_of (evaluate_question env i q) ''crossDisciplinary'' = Some (JNumber c)"
  shows "get_prop (evaluate_question env i q) ''overallScore'' =
           Some (JNumber (overall_of_numbers n f m c))"
proof (cases rule: evaluate_question_cases[of env i q])
  case (failed msg)
  with assms have "n = Finite 0" "f = Finite 0" "m = Finite 0" "c = Finite 0"
    by (simp_all add: evaluation_error_def placeholder_def score_of_def)
  with failed show ?thesis by (simp add: evaluation_error_def overall_of_zeros)
next
  case (scored kv overall)
  from assms have "score_of (JObject kv) ''novelty'' = Some (JNumber n)"
    "score_of (JObject kv) ''feasibility'' = Some (JNumber f)"
    "score_of (JObject kv) ''impact'' = Some (JNumber m)"
    "score_of (JObject kv) ''crossDisciplinary'' = Some (JNumber c)"
    by (simp_all add: scored(7) score_of_def entry_other)
  from overall_score_numbers[OF this, of env] scored(6)
  have "overall = div4 (num_add (num_add (num_add n f) m) c)" by simp
  then show ?thesis by (simp add: scored(7) entry_overallScore overall_of_numbers_def)
qed

lemma evaluate_question_error:
  assumes "\<not> carries env i ''error''" "get_prop (evaluate_question env i q) ''error'' \<noteq> None"
  shows "get_prop (evaluate_question env i q) ''overallScore'' = Some (JNumber (Finite 0))"
proof (cases rule: evaluate_question_cases[of env i q])
  case (failed msg)
  then show ?thesis by (simp add: evaluation_error_def)
next
  case (scored kv overall)
  with assms show ?thesis by (simp add: carries_def entry_other)
qed

text \<open>
  C3 (as amended).  In every \<open>evaluated_questions\<close> artifact that question-judger
  stores, an entry whose four scores are numbers has as its overall score the double that
  the handler computes from them: the scores added from left to right and divided by 4 in
  double arithmetic, then \<open>parseFloat\<close> of \<open>toFixed(2)\<close>.  When the four scores are
  integers from 1 to 10, as the prompt asks, nothing is rounded on the way, and the
  overall score is the arithmetic mean of the four scores rounded to two decimal places.
  An entry with an error has the overall score 0, unless the parsed completion has a
  property \<open>error\<close> of its own.

  The claim as first stated takes the arithmetic mean for every entry without an error:
  the sum and the quotient of doubles are rounded to doubles before \<open>toFixed\<close> rounds to
  two places.
\<close>

theorem question_judger_overall_score:
  "\<forall>evs. StateSet (judged_traceId payload @ '':evaluated_questions'') (AEvaluated evs)
             \<in> set (fst (question_judger ctx env payload)) \<longrightarrow>
     (\<forall>i < length (questions payload).
        (\<forall>n f m c.
           score_of (evs ! i) ''novelty'' = Some (JNumber n) \<and>
           score_of (evs ! i) ''feasibility'' = Some (JNumber f) \<and>
           score_of (evs ! i) ''impact'' = Some (JNumber m) \<and>
           score_of (evs ! i) ''crossDisciplinary'' = Some (JNumber c) \<longrightarrow>
           get_prop (evs ! i) ''overallScore'' = Some (JNumber (overall_of_numbers n f m c))) \<and>
        (\<forall>a b c d.
           score_of (evs ! i) ''novelty'' = Some (JNumber (Finite (of_int a))) \<and>
           score_of (evs ! i) ''feasibility'' = Some (JNumber (Finite (of_int b))) \<and>
           score_of (evs ! i) ''impact'' = Some (JNumber (Finite (of_int c))) \<and>
           score_of (evs ! i) ''crossDisciplinary'' = Some (JNumber (Finite (of_int d))) \<and>
           1 \<le> a \<and> a \<le> 10 \<and> 1 \<le> b \<and> b \<le> 10 \<and> 1 \<le> c \<and> c \<le> 10 \<and> 1 \<le> d \<and> d \<le> 10 \<longrightarrow>
           get_prop (evs ! i) ''overallScore'' =
             Some (JNumber (Finite (toFixed2 (mean4 (of_int a) (of_int b) (of_int c) (of_int d))))) \<and>
           rounded_to_2_places (toFixed2 (mean4 (of_int a) (of_int b) (of_int c) (of_int d)))
             (mean4 (of_int a) (of_int b) (of_int c) (of_int d))) \<and>
        (\<not> carries env i ''error'' \<and> get_prop (evs ! i) ''error'' \<noteq> None \<longrightarrow>
           get_prop (evs ! i) ''overallScore'' = Some (JNumber (Finite 0))))"
proof (intro allI impI)
  fix evs i
  assume "StateSet (judged_traceId payload @ '':evaluated_questions'') (AEvaluated evs)
             \<in> set (fst (question_judger ctx env payload))" and i: "i < length (questions payload)"
  then have e: "evs ! i = evaluate_question env i (questions payload ! i)"
    using question_judger_stored judge_loop_nth by blast
  have general: "get_prop (evs ! i) ''overallScore'' = Some (JNumber (overall_of_numbers n f m c))"
    if "score_of (evs ! i) ''novelty'' = Some (JNumber n) \<and>
        score_of (evs ! i) ''feasibility'' = Some (JNumber f) \<and>
        score_of (evs ! i) ''impact'' = Some (JNumber m) \<and>
        score_of (evs ! i) ''crossDisciplinary'' = Some (JNumber c)" for n f m c
    using that evaluate_question_overall[of env i "questions payload ! i" n f m c]
    by (simp add: e)
  have integers: "get_prop (evs ! i) ''overallScore'' =
             Some (JNumber (Finite (toFixed2 (mean4 (of_int a) (of_int b) (of_int c) (of_int d))))) \<and>
           rounded_to_2_places (toFixed2 (mean4 (of_int a) (of_int b) (of_int c) (of_int d)))
             (mean4 (of_int a) (of_int b) (of_int c) (of_int d))"
    if h: "score_of (evs ! i) ''novelty'' = Some (JNumber (Finite (of_int a))) \<and>
        score_of (evs ! i) ''feasibility'' = Some (JNumber (Finite (of_int b))) \<and>
        score_of (evs ! i) ''impact'' = Some (JNumber (Finite (of_int c))) \<and>
        score_of (evs ! i) ''crossDisciplinary'' = Some (JNumber (Finite (of_int d))) \<and>
        1 \<le> a \<and> a \<le> 10 \<and> 1 \<le> b \<and> b \<le> 10 \<and> 1 \<le> c \<and> c \<le> 10 \<and> 1 \<le> d \<and> d \<le> 10"
    for a b c d
  proof -
    from h have "get_prop (evs ! i) ''overallScore'' =
        Some (JNumber (overall_of_numbers (Finite (of_int a)) (Finite (of_int b))
           (Finite (of_int c)) (Finite (of_int d))))"
      by (intro general) simp
    moreover have "overall_of_numbers (Finite (of_int a)) (Finite (of_int b))
           (Finite (of_int c)) (Finite (of_int d)) =
         Finite (mean4 (of_int a) (of_int b) (of_int c) (of_int d))"
      using h by (intro overall_of_integers) simp_all
    moreover have "toFixed2 (mean4 (of_int a) (of_int b) (of_int c) (of_int d)) =
        mean4 (of_int a) (of_int b) (of_int c) (of_int d)"
      using h by (intro toFixed2_mean_of_integers) simp
    ultimately show ?thesis
      using toFixed2_rounds[of "mean4 (of_int a) (of_int b) (of_int c) (of_int d)"]
      by (simp only: simp_thms)
  qed
  have failed: "get_prop (evs ! i) ''overallScore'' = Some (JNumber (Finite 0))"
    if "\<not> carries env i ''error'' \<and> get_prop (evs ! i) ''error'' \<noteq> None"
    using that evaluate_question_error[of env i "questions payload ! i"] by (simp add: e)
  from general integers failed
  show "(\<forall>n f m c.
           score_of (evs ! i) ''novelty'' = Some (JNumber n) \<and>
           score_of (evs ! i) ''feasibility'' = Some (JNumber f) \<and>
           score_of (evs ! i) ''impact'' = Some (JNumber m) \<and>
           score_of (evs ! i) ''crossDisciplinary'' = Some (JNumber c) \<longrightarrow>
           get_prop (evs ! i) ''overallScore'' = Some (JNumber (overall_of_numbers n f m c))) \<and>
        (\<forall>a b c d.
           score_of (evs ! i) ''novelty'' = Some (JNumber (Finite (of_int a))) \<and>
           score_of (evs ! i) ''feasibility'' = Some (JNumber (Finite (of_int b))) \<and>
           score_of (evs ! i) ''impact'' = Some (JNumber (Finite (of_int c))) \<and>
           score_of (evs ! i) ''crossDisciplinary'' = Some (JNumber (Finite (of_int d))) \<and>
           1 \<le> a \<and> a \<le> 10 \<and> 1 \<le> b \<and> b \<le> 10 \<and> 1 \<le> c \<and> c \<le> 10 \<and> 1 \<le> d \<and> d \<le> 10 \<longrightarrow>
           get_prop (evs ! i) ''overallScore'' =
             Some (JNumber (Finite (toFixed2 (mean4 (of_int a) (of_int b) (of_int c) (of_int d))))) \<and>
           rounded_to_2_places (toFixed2 (mean4 (of_int a) (of_int b) (of_int c) (of_int d)))
             (mean4 (of_int a) (of_int b) (of_int c) (of_int d))) \<and>
        (\<not> carries env i ''error'' \<and> get_prop (evs ! i) ''error'' \<noteq> None \<longrightarrow>
           get_prop (evs ! i) ''overallScore'' = Some (JNumber (Finite 0)))"
    by blast
qed

subsection \<open>Sample runs of question-judger\<close>

lemmas judger_eval = evaluate_question_def try_evaluate_def parse_evaluation_def
  overall_score_def score_of_def assign_def criterion_def overall_of_numbers_def

lemma sample_judged:
  "judge_loop sample_env 0 [] (questions sample_questions) =
     [JObject [(''question'', JString ''q0''),
        (''novelty'', criterion 7 ''new''),
        (''feasibility'', criterion 8 ''doable''),
        (''impact'', criterion 8 ''large''),
        (''crossDisciplinary'', criterion 8 ''broad''),
        (''overallScore'', JNumber (Finite (31 / 4)))],
      evaluation_error ''q1'' ''timeout'',
      evaluation_error ''q2'' ''Failed to parse OpenAI JSON evaluation: Unexpected token'']"
  by (simp add: sample_questions_def sample_env_def sample_evaluation_def judger_eval
      double_eval)

lemma sample_stored:
  "StateSet (judged_traceId sample_questions @ '':evaluated_questions'')
      (AEvaluated (judge_loop sample_env 0 [] (questions sample_questions)))
     \<in> set (fst (question_judger quiet sample_env sample_questions))"
  by (rule question_judger_stores) (simp_all add: sample_env_def quiet_def)

lemma sample_carries:
  "carries sample_env 0 k = False" "carries sample_env 1 k = False"
  "carries sample_env 2 k = False"
  if "k = ''question'' \<or> k = ''error''"
  using that
  by (auto simp: carries_def completed_def sample_env_def sample_evaluation_def)

theorem question_judger_artifact_witness:
  "truthy (OPENAI_API_KEY sample_env) \<and>
   get_fails quiet (judged_traceId sample_questions @ '':seed_topic'') = None \<and>
   set_fails quiet (judged_traceId sample_questions @ '':evaluated_questions'') = None \<and>
   StateSet ''t1:evaluated_questions''
      (AEvaluated (judge_loop sample_env 0 [] [''q0'', ''q1'', ''q2'']))
     \<in> set (fst (question_judger quiet sample_env sample_questions)) \<and>
   length (judge_loop sample_env 0 [] [''q0'', ''q1'', ''q2'']) = 3 \<and>
   judge_loop sample_env 0 [] [''q0'', ''q1'', ''q2''] ! 2 = evaluate_question sample_env 2 ''q2'' \<and>
   carries sample_env 0 ''question'' = False \<and>
   carries sample_env 0 ''error'' = False \<and>
   get_prop (judge_loop sample_env 0 [] [''q0'', ''q1'', ''q2''] ! 0) ''question'' =
     Some (JString ''q0'') \<and>
   scored_entry sample_env 0 (judge_loop sample_env 0 [] [''q0'', ''q1'', ''q2''] ! 0) \<and>
   error_entry ''q1'' (judge_loop sample_env 0 [] [''q0'', ''q1'', ''q2''] ! 1) \<and>
   error_entry ''q2'' (judge_loop sample_env 0 [] [''q0'', ''q1'', ''q2''] ! 2)"
proof -
  let ?evs = "judge_loop sample_env 0 [] [''q0'', ''q1'', ''q2'']"
  have q: "questions sample_questions = [''q0'', ''q1'', ''q2'']"
    "judged_traceId sample_questions = ''t1''"
    by (simp_all add: sample_questions_def)
  have pre: "truthy (OPENAI_API_KEY sample_env)"
    "get_fails quiet (judged_traceId sample_questions @ '':seed_topic'') = None"
    "set_fails quiet (judged_traceId sample_questions @ '':evaluated_questions'') = None"
    by (simp_all add: sample_env_def quiet_def)
  have c: "carries sample_env 0 ''question'' = False" "carries sample_env 0 ''error'' = False"
    by (simp_all add: sample_carries)
  have kinds: "scored_entry sample_env 0 (?evs ! 0)"
    "error_entry ''q1'' (?evs ! 1)" "error_entry ''q2'' (?evs ! 2)"
    using sample_judged c(2)
    by (simp_all add: q scored_entry_def has_criterion_def error_entry_def evaluation_error_def
        completed_def sample_env_def sample_evaluation_def judger_eval double_eval
        del: judge_loop.simps)
  note art = question_judger_artifact[of sample_questions quiet sample_env, THEN conjunct1,
      THEN spec, THEN mp, OF sample_stored]
  have l: "0 < length (questions sample_questions)" "2 < length (questions sample_questions)"
    by (simp_all add: q)
  from art[THEN conjunct1] have "length ?evs = 3" by (simp add: q del: judge_loop.simps)
  moreover from art[THEN conjunct2, THEN spec, THEN mp, OF l(2), THEN conjunct1]
  have "?evs ! 2 = evaluate_question sample_env 2 ''q2''" by (simp add: q del: judge_loop.simps)
  moreover from art[THEN conjunct2, THEN spec, THEN mp, OF l(1), THEN conjunct2, THEN conjunct1]
  have "get_prop (?evs ! 0) ''question'' = Some (JString ''q0'')"
    using c(1) by (simp add: q del: judge_loop.simps)
  ultimately show ?thesis
    using pre kinds sample_stored c by (simp add: q del: judge_loop.simps)
qed

theorem question_judger_overall_score_witness:
  "StateSet ''t1:evaluated_questions''
      (AEvaluated (judge_loop sample_env 0 [] [''q0'', ''q1'', ''q2'']))
     \<in> set (fst (question_judger quiet sample_env sample_questions)) \<and>
   score_of (judge_loop sample_env 0 [] [''q0'', ''q1'', ''q2''] ! 0) ''novelty'' =
     Some (JNumber (Finite 7)) \<and>
   score_of (judge_loop sample_env 0 [] [''q0'', ''q1'', ''q2''] ! 0) ''feasibility'' =
     Some (JNumber (Finite 8)) \<and>
   score_of (judge_loop sample_env 0 [] [''q0'', ''q1'', ''q2''] ! 0) ''impact'' =
     Some (JNumber (Finite 8)) \<and>
   score_of (judge_loop sample_env 0 [] [''q0'', ''q1'', ''q2''] ! 0) ''crossDisciplinary'' =
     Some (JNumber (Finite 8)) \<and>
   get_prop (judge_loop sample_env 0 [] [''q0'', ''q1'', ''q2''] ! 0) ''overallScore'' =
     Some (JNumber (overall_of_numbers (Finite 7) (Finite 8) (Finite 8) (Finite 8))) \<and>
   get_prop (judge_loop sample_env 0 [] [''q0'', ''q1'', ''q2''] ! 0) ''overallScore'' =
     Some (JNumber (Finite (31 / 4))) \<and>
   mean4 7 8 8 8 = 31 / 4 \<and>
   rounded_to_2_places (31 / 4) (31 / 4) \<and>
   carries sample_env 1 ''error'' = False \<and>
   get_prop (judge_loop sample_env 0 [] [''q0'', ''q1'', ''q2''] ! 1) ''error'' =
     Some (JString ''timeout'') \<and>
   get_prop (judge_loop sample_env 0 [] [''q0'', ''q1'', ''q2''] ! 1) ''overallScore'' =
     Some (JNumber (Finite 0))"
proof -
  let ?evs = "judge_loop sample_env 0 [] [''q0'', ''q1'', ''q2'']"
  have q: "questions sample_questions = [''q0'', ''q1'', ''q2'']"
    "judged_traceId sample_questions = ''t1''"
    by (simp_all add: sample_questions_def)
  have s: "score_of (?evs ! 0) ''novelty'' = Some (JNumber (Finite (of_int 7)))"
    "score_of (?evs ! 0) ''feasibility'' = Some (JNumber (Finite (of_int 8)))"
    "score_of (?evs ! 0) ''impact'' = Some (JNumber (Finite (of_int 8)))"
    "score_of (?evs ! 0) ''crossDisciplinary'' = Some (JNumber (Finite (of_int 8)))"
    using sample_judged by (simp_all add: q score_of_def criterion_def del: judge_loop.simps)
  have e: "get_prop (?evs ! 1) ''error'' = Some (JString ''timeout'')"
    using sample_judged by (simp add: q evaluation_error_def del: judge_loop.simps)
  have c: "carries sample_env 1 ''error'' = False" by (rule sample_carries) simp
  have m: "StateSet (judged_traceId sample_questions @ '':evaluated_questions'')
      (AEvaluated ?evs) \<in> set (fst (question_judger quiet sample_env sample_questions))"
    using sample_stored by (simp add: q del: judge_loop.simps)
  have l: "0 < length (questions sample_questions)" "1 < length (questions sample_questions)"
    by (simp_all add: q)
  note t = question_judger_overall_score[of sample_questions quiet sample_env, THEN spec,
      THEN mp, OF m, THEN spec, THEN mp]
  from t[OF l(1), THEN conjunct1, THEN spec, THEN spec, THEN spec, THEN spec, THEN mp] s
  have general: "get_prop (?evs ! 0) ''overallScore'' =
      Some (JNumber (overall_of_numbers (Finite 7) (Finite 8) (Finite 8) (Finite 8)))"
    by (simp del: judge_loop.simps)
  have "(1::int) \<le> 7 \<and> (7::int) \<le> 10 \<and> (1::int) \<le> 8 \<and> (8::int) \<le> 10" by simp
  with t[OF l(1), THEN conjunct2, THEN conjunct1, THEN spec[of _ 7], THEN spec[of _ 8],
      THEN spec[of _ 8], THEN spec[of _ 8], THEN mp] s
  have "get_prop (?evs ! 0) ''overallScore'' =
      Some (JNumber (Finite (toFixed2 (mean4 (of_int 7) (of_int 8) (of_int 8) (of_int 8))))) \<and>
    rounded_to_2_places (toFixed2 (mean4 (of_int 7) (of_int 8) (of_int 8) (of_int 8)))
      (mean4 (of_int 7) (of_int 8) (of_int 8) (of_int 8))"
    by blast
  moreover have v: "mean4 7 8 8 8 = 31 / 4" "toFixed2 (31 / 4) = 31 / 4"
    by (simp_all add: mean4_def toFixed2_def floor_rat_numeral)
  ultimately have integers: "get_prop (?evs ! 0) ''overallScore'' = Some (JNumber (Finite (31 / 4)))"
    "rounded_to_2_places (31 / 4) (31 / 4)"
    by (simp_all del: judge_loop.simps)
  have c': "\<not> carries sample_env 1 ''error''" unfolding c by simp
  have e': "get_prop (?evs ! 1) ''error'' \<noteq> None" unfolding e by simp
  note failed = t[OF l(2), THEN conjunct2, THEN conjunct2, THEN mp, OF conjI[OF c' e']]
  from s have s': "score_of (?evs ! 0) ''novelty'' = Some (JNumber (Finite 7))"
    "score_of (?evs ! 0) ''feasibility'' = Some (JNumber (Finite 8))"
    "score_of (?evs ! 0) ''impact'' = Some (JNumber (Finite 8))"
    "score_of (?evs ! 0) ''crossDisciplinary'' = Some (JNumber (Finite 8))"
    by (simp_all del: judge_loop.simps)
  from m s' general integers v(1) c e failed show ?thesis
    by (simp only: q append.simps simp_thms)
qed

text \<open>
  The claim C2 as first stated, at a completion that carries a question and an error of
  its own: the entry that is stored for the question \<open>q0\<close> has the question of the
  completion, and it has an error next to scores and an overall score of 5.
\<close>

theorem question_judger_injected_counterexample:
  "questions one_question = [''q0''] \<and>
   fst (question_judger quiet (replying injected) one_question) =
     [StateSet ''t1:evaluated_questions'' (AEvaluated
        [JObject [(''question'', JString ''injected''),
           (''novelty'', criterion 5 ''a''),
           (''feasibility'', criterion 5 ''b''),
           (''impact'', criterion 5 ''c''),
           (''crossDisciplinary'', criterion 5 ''d''),
           (''error'', JString ''boom''),
           (''overallScore'', JNumber (Finite 5))]]),
      Emit ''questions.judged'' (QuestionsJudged ''t1''
        [JObject [(''question'', JString ''injected''),
           (''novelty'', criterion 5 ''a''),
           (''feasibility'', criterion 5 ''b''),
           (''impact'', criterion 5 ''c''),
           (''crossDisciplinary'', criterion 5 ''d''),
           (''error'', JString ''boom''),
           (''overallScore'', JNumber (Finite 5))]])]"
  by (simp add: question_judger_def one_question_def replying_def injected_def quiet_def
      tryCatch_def andThen_def state_set_def state_get_def emit_def judger_eval double_eval)

text \<open>
  The claim C3 as first stated, at the scores 1, 1, 1 and 1.02: the sum of the doubles
  is rounded to a double below 4.02, and the overall score that is stored is 1, where
  the arithmetic mean of the four scores, rounded to two decimal places, is 1.01.
\<close>

theorem question_judger_rounding_counterexample:
  "to_double (102 / 100) = Finite (4593671619917906 / 4503599627370496) \<and>
   fst (question_judger quiet (replying nearly_round) one_question) =
     [StateSet ''t1:evaluated_questions'' (AEvaluated
        [JObject [(''question'', JString ''q0''),
           (''novelty'', criterion 1 ''a''),
           (''feasibility'', criterion 1 ''b''),
           (''impact'', criterion 1 ''c''),
           (''crossDisciplinary'', criterion (4593671619917906 / 4503599627370496) ''d''),
           (''overallScore'', JNumber (Finite 1))]]),
      Emit ''questions.judged'' (QuestionsJudged ''t1''
        [JObject [(''question'', JString ''q0''),
           (''novelty'', criterion 1 ''a''),
           (''feasibility'', criterion 1 ''b''),
           (''impact'', criterion 1 ''c''),
           (''crossDisciplinary'', criterion (4593671619917906 / 4503599627370496) ''d''),
           (''overallScore'', JNumber (Finite 1))]])] \<and>
   toFixed2 (mean4 1 1 1 (4593671619917906 / 4503599627370496)) = 101 / 100"
  by (simp add: question_judger_def one_question_def replying_def nearly_round_def quiet_def
      tryCatch_def andThen_def state_set_def state_get_def emit_def judger_eval double_eval
      mean4_def)

subsection \<open>The retry loop of content-extractor\<close>

lemma fetch_loop_stop: "success s \<or> attempt s = 3 \<Longrightarrow> fetch_loop f r s = s"
  by (subst fetch_loop.simps) (auto simp: MAX_RETRIES_def)

lemma fetch_loop_go:
  "\<not> success s \<Longrightarrow> attempt s < 3 \<Longrightarrow> fetch_loop f r s = fetch_loop f r (fetch_attempt f r s)"
  by (subst fetch_loop.simps) (auto simp: MAX_RETRIES_def)

lemma fetch_attempt_Inr:
  "try_fetch r (f (Suc (attempt s))) = Inr e \<Longrightarrow>
   fetch_attempt f r s = s \<lparr> attempt := Suc (attempt s), extracted := Some e, success := True \<rparr>"
  by (simp add: fetch_attempt_def Let_def)

lemma fetch_attempt_Inl:
  "try_fetch r (f (Suc (attempt s))) = Inl x \<Longrightarrow>
   fetch_attempt f r s = s \<lparr> attempt := Suc (attempt s),
      extracted := Some (failed r (fetch_error_message x)),
      delays := delays s @ (if attempt s < 2 then [RETRY_DELAY] else []) \<rparr>"
  by (simp add: fetch_attempt_def Let_def MAX_RETRIES_def less_Suc_eq_le numeral_2_eq_2)

text \<open>The result of the loop for the three possible lengths of a run of attempts.\<close>

lemma fetch_loop_first:
  assumes "try_fetch r (f 1) = Inr e"
  shows "fetch_loop f r initial =
           \<lparr> attempt = 1, success = True, extracted = Some e, delays = [] \<rparr>"
proof -
  have "fetch_attempt f r initial =
          \<lparr> attempt = 1, success = True, extracted = Some e, delays = [] \<rparr>"
    using fetch_attempt_Inr[of r f initial e] assms by (simp add: initial_def)
  then show ?thesis
    using fetch_loop_go[of initial f r] by (simp add: initial_def fetch_loop_stop)
qed

lemma fetch_loop_retry1:
  assumes "try_fetch r (f 1) = Inl x"
  shows "fetch_loop f r initial =
           fetch_loop f r \<lparr> attempt = 1, success = False,
             extracted = Some (failed r (fetch_error_message x)), delays = [RETRY_DELAY] \<rparr>"
proof -
  have "fetch_attempt f r initial =
          \<lparr> attempt = 1, success = False,
             extracted = Some (failed r (fetch_error_message x)), delays = [RETRY_DELAY] \<rparr>"
    using fetch_attempt_Inl[of r f initial x] assms by (simp add: initial_def)
  then show ?thesis
    using fetch_loop_go[of initial f r] by (simp add: initial_def)
qed

lemma fetch_loop_second:
  assumes "try_fetch r (f 1) = Inl x" "try_fetch r (f 2) = Inr e"
  shows "fetch_loop f r initial =
           \<lparr> attempt = 2, success = True, extracted = Some e, delays = [RETRY_DELAY] \<rparr>"
proof -
  let ?s = "\<lparr> attempt = 1, success = False,
             extracted = Some (failed r (fetch_error_message x)), delays = [RETRY_DELAY] \<rparr>"
  have "fetch_attempt f r ?s =
          \<lparr> attempt = 2, success = True, extracted = Some e, delays = [RETRY_DELAY] \<rparr>"
    using fetch_attempt_Inr[of r f ?s e] assms(2) by (simp add: numeral_2_eq_2)
  then show ?thesis
    using fetch_loop_go[of ?s f r] fetch_loop_retry1[of r f x, OF assms(1)] by (simp add: fetch_loop_stop)
qed

lemma fetch_loop_retry2:
  assumes "try_fetch r (f 1) = Inl x" "try_fetch r (f 2) = Inl y"
  shows "fetch_loop f r initial =
           fetch_loop f r \<lparr> attempt = 2, success = False,
             extracted = Some (failed r (fetch_error_message y)),
             delays = [RETRY_DELAY, RETRY_DELAY] \<rparr>"
proof -
  let ?s = "\<lparr> attempt = 1, success = False,
             extracted = Some (failed r (fetch_error_message x)), delays = [RETRY_DELAY] \<rparr>"
  have "fetch_attempt f r ?s =
          \<lparr> attempt = 2, success = False,
             extracted = Some (failed r (fetch_error_message y)),
             delays = [RETRY_DELAY, RETRY_DELAY] \<rparr>"
    using fetch_attempt_Inl[of r f ?s y] assms(2) by (simp add: numeral_2_eq_2)
  then show ?thesis
    using fetch_loop_go[of ?s f r] fetch_loop_retry1[of r f x, OF assms(1)] by simp
qed

lemma fetch_loop_third:
  assumes "try_fetch r (f 1) = Inl x" "try_fetch r (f 2) = Inl y" "try_fetch r (f 3) = Inr e"
  shows "fetch_loop f r initial =
           \<lparr> attempt = 3, success = True, extracted = Some e,
             delays = [RETRY_DELAY, RETRY_DELAY] \<rparr>"
proof -
  let ?s = "\<lparr> attempt = 2, success = False,
             extracted = Some (failed r (fetch_error_message y)),
             delays = [RETRY_DELAY, RETRY_DELAY] \<rparr>"
  have "fetch_attempt f r ?s =
          \<lparr> attempt = 3, success = True, extracted = Some e,
             delays = [RETRY_DELAY, RETRY_DELAY] \<rparr>"
    using fetch_attempt_Inr[of r f ?s e] assms(3) by (simp add: numeral_3_eq_3 numeral_2_eq_2)
  then show ?thesis
    using fetch_loop_go[of ?s f r] fetch_loop_retry2[of r f x y, OF assms(1,2)]
    by (simp add: fetch_loop_stop)
qed

lemma fetch_loop_exhausted:
  assumes "try_fetch r (f 1) = Inl x" "try_fetch r (f 2) = Inl y" "try_fetch r (f 3) = Inl z"
  shows "fetch_loop f r initial =
           \<lparr> attempt = 3, success = False,
             extracted = Some (failed r (fetch_error_message z)),
             delays = [RETRY_DELAY, RETRY_DELAY] \<rparr>"
proof -
  let ?s = "\<lparr> attempt = 2, success = False,
             extracted = Some (failed r (fetch_error_message y)),
             delays = [RETRY_DELAY, RETRY_DELAY] \<rparr>"
  have "fetch_attempt f r ?s =
          \<lparr> attempt = 3, success = False,
             extracted = Some (failed r (fetch_error_message z)),
             delays = [RETRY_DELAY, RETRY_DELAY] \<rparr>"
    using fetch_attempt_Inl[of r f ?s z] assms(3) by (simp add: numeral_3_eq_3 numeral_2_eq_2)
  then show ?thesis
    using fetch_loop_go[of ?s f r] fetch_loop_retry2[of r f x y, OF assms(1,2)]
    by (simp add: fetch_loop_stop)
qed

lemma try_fetch_not_html:
  "ok \<Longrightarrow> \<not> str_includes (if truthy header then the header else []) ''text/html'' \<Longrightarrow>
   try_fetch r (Response ok status header body) =
     Inr (failed r (''Skipped non-HTML content type: '' @
                      (if truthy header then the header else [])))"
  by (simp add: try_fetch_def Let_def)

lemma try_fetch_no_text:
  "str_includes (if truthy header then the header else []) ''text/html'' \<Longrightarrow>
   article = None \<or> textContent (the article) = [] \<Longrightarrow>
   try_fetch r (Response True status header (Parsed article)) =
     Inl (JsError ''Error'' (''Readability could not extract content from '' @ result_url r))"
  by (auto simp: try_fetch_def Let_def)

lemma try_fetch_status:
  "\<not> ok \<Longrightarrow>
   try_fetch r (Response ok status header body) =
     Inl (JsError ''Error'' (''HTTP error! status: '' @ decimal status @ '' for '' @ result_url r))"
  by (simp add: try_fetch_def)

lemma attempt_fetch_loop: "attempt (fetch_loop f r initial) \<le> 3"
proof (cases "try_fetch r (f 1)")
  case (Inr e)
  then show ?thesis by (simp add: fetch_loop_first)
next
  case x: (Inl x)
  show ?thesis
  proof (cases "try_fetch r (f 2)")
    case (Inr e)
    with x show ?thesis by (simp add: fetch_loop_second[of r f x])
  next
    case y: (Inl y)
    show ?thesis
      by (cases "try_fetch r (f 3)")
        (simp_all add: fetch_loop_third[OF x y] fetch_loop_exhausted[OF x y])
  qed
qed

text \<open>
  C5 (as amended).  An attempt that meets a content type without \<open>text/html\<close> does not
  throw: it records the error "Skipped non-HTML content type" and ends the loop, so it is
  never retried.  Every other failure of an attempt is thrown and caught alike, whether
  \<open>fetch\<close> rejects (transport error, timeout), the status is not ok, or Readability
  extracts no text: the error is recorded and, while fewer than 3 attempts were made, a
  delay of 1000 ms and another attempt follow.  The loop makes at most 3 attempts; after
  three failures the error of the third attempt is the one recorded.
\<close>

theorem fetch_loop_retry_policy:
  "(ok \<and> \<not> str_includes (if truthy header then the header else []) ''text/html'' \<longrightarrow>
      try_fetch r (Response ok status header body) =
        Inr (failed r (''Skipped non-HTML content type: '' @
                         (if truthy header then the header else []))))
   \<and> try_fetch r (FetchThrows err) = Inl err
   \<and> (\<not> ok \<longrightarrow>
        try_fetch r (Response ok status header body) =
          Inl (JsError ''Error''
                 (''HTTP error! status: '' @ decimal status @ '' for '' @ result_url r)))
   \<and> (str_includes (if truthy header then the header else []) ''text/html'' \<and>
      (article = None \<or> textContent (the article) = []) \<longrightarrow>
        try_fetch r (Response True status header (Parsed article)) =
          Inl (JsError ''Error''
                 (''Readability could not extract content from '' @ result_url r)))
   \<and> (\<forall>e. try_fetch r (f 1) = Inr e \<longrightarrow>
        fetch_loop f r initial =
          \<lparr> attempt = 1, success = True, extracted = Some e, delays = [] \<rparr>)
   \<and> (\<forall>x e. try_fetch r (f 1) = Inl x \<and> try_fetch r (f 2) = Inr e \<longrightarrow>
        fetch_loop f r initial =
          \<lparr> attempt = 2, success = True, extracted = Some e, delays = [1000] \<rparr>)
   \<and> (\<forall>x y e. try_fetch r (f 1) = Inl x \<and> try_fetch r (f 2) = Inl y \<and>
               try_fetch r (f 3) = Inr e \<longrightarrow>
        fetch_loop f r initial =
          \<lparr> attempt = 3, success = True, extracted = Some e, delays = [1000, 1000] \<rparr>)
   \<and> (\<forall>x y z. try_fetch r (f 1) = Inl x \<and> try_fetch r (f 2) = Inl y \<and>
               try_fetch r (f 3) = Inl z \<longrightarrow>
        fetch_loop f r initial =
          \<lparr> attempt = 3, success = False,
            extracted = Some (failed r (fetch_error_message z)), delays = [1000, 1000] \<rparr>)
   \<and> attempt (fetch_loop f r initial) \<le> 3"
  using try_fetch_not_html[of ok header r status body] try_fetch_status[of ok r status header body]
    try_fetch_no_text[of header article r status]
    fetch_loop_first[of r f] fetch_loop_second[of r f] fetch_loop_third[of r f]
    fetch_loop_exhausted[of r f] attempt_fetch_loop[of f r]
  by (simp add: RETRY_DELAY_def try_fetch_def)

text \<open>
  The claim as first stated has a fetch without usable text recorded as final, without
  retry.  Here the first attempt extracts no text and the second one succeeds: the loop
  waits 1000 ms, tries again and records the article, without error.
\<close>

theorem fetch_loop_no_text_counterexample:
  "fetch_loop no_text_then_article sample_result initial =
     \<lparr> attempt = 2, success = True,
       extracted = Some \<lparr> url = ''https://a.example/x'', title = ''Paper'',
                          content = ''Body text'', excerpt = Some ''Body'',
                          length' = Some 11, error' = None \<rparr>,
       delays = [1000] \<rparr>"
proof -
  have 1: "try_fetch sample_result (no_text_then_article 1) =
      Inl (JsError ''Error''
             (''Readability could not extract content from '' @ result_url sample_result))"
    by (simp add: no_text_then_article_def html_page_def try_fetch_def)
  have 2: "try_fetch sample_result (no_text_then_article 2) =
      Inr \<lparr> url = ''https://a.example/x'', title = ''Paper'',
                          content = ''Body text'', excerpt = Some ''Body'',
                          length' = Some 11, error' = None \<rparr>"
    by (simp add: no_text_then_article_def html_page_def try_fetch_def sample_article_def
        sample_result_def trim_def white_space_def)
  show ?thesis
    using fetch_loop_second[OF 1 2] by (simp add: RETRY_DELAY_def)
qed

theorem fetch_loop_retry_policy_witness:
  "try_fetch sample_result (always_times_out 1) =
     Inl (JsError ''AbortError'' ''The user aborted a request.'') \<and>
   fetch_loop always_times_out sample_result initial =
     \<lparr> attempt = 3, success = False,
       extracted = Some (failed sample_result ''Fetch timed out after 15s''),
       delays = [1000, 1000] \<rparr> \<and>
   \<not> str_includes ''application/pdf'' ''text/html'' \<and>
   fetch_loop pdf sample_result initial =
     \<lparr> attempt = 1, success = True,
       extracted = Some (failed sample_result ''Skipped non-HTML content type: application/pdf''),
       delays = [] \<rparr>"
proof -
  have t: "try_fetch sample_result (always_times_out n) =
     Inl (JsError ''AbortError'' ''The user aborted a request.'')" for n
    by (simp add: always_times_out_def try_fetch_def)
  have m: "fetch_error_message (JsError ''AbortError'' ''The user aborted a request.'')
             = ''Fetch timed out after 15s''"
    by (simp add: FETCH_TIMEOUT_def)
  have n: "\<not> str_includes ''application/pdf'' ''text/html''"
    by simp
  have p: "try_fetch sample_result (pdf 1) =
     Inr (failed sample_result ''Skipped non-HTML content type: application/pdf'')"
    using fetch_loop_retry_policy[of True "Some ''application/pdf''" sample_result 200 "Parsed None"]
      n by (simp add: pdf_def)
  have "fetch_loop always_times_out sample_result initial =
     \<lparr> attempt = 3, success = False,
       extracted = Some (failed sample_result ''Fetch timed out after 15s''),
       delays = [1000, 1000] \<rparr>"
    using fetch_loop_retry_policy[of _ _ sample_result _ _ _ _ always_times_out] t m by simp
  moreover have "fetch_loop pdf sample_result initial =
     \<lparr> attempt = 1, success = True,
       extracted = Some (failed sample_result ''Skipped non-HTML content type: application/pdf''),
       delays = [] \<rparr>"
    using fetch_loop_retry_policy[of _ _ sample_result _ _ _ _ pdf] p by simp
  ultimately show ?thesis using t n by simp
qed

subsection \<open>What content-extractor stores\<close>

lemma try_fetch_kinds:
  "(got_text x \<and> (\<exists>e. try_fetch r x = Inr e \<and> error' e = None \<and> url e = result_url r)) \<or>
   (\<not> got_text x \<and> not_html x \<and>
      (\<exists>e. try_fetch r x = Inr e \<and> error' e \<noteq> None \<and> content e = [] \<and> url e = result_url r)) \<or>
   (\<not> got_text x \<and> \<not> not_html x \<and> (\<exists>err. try_fetch r x = Inl err))"
proof (cases x)
  case (FetchThrows e)
  then show ?thesis by (simp add: try_fetch_def)
next
  case (Response ok status header body)
  show ?thesis
  proof (cases body)
    case (PageThrows e)
    with Response show ?thesis by (simp add: try_fetch_def failed_def Let_def)
  next
    case (Parsed article)
    with Response show ?thesis
      by (cases article) (simp_all add: try_fetch_def failed_def Let_def)
  qed
qed

lemma extracted_fetch_loop:
  "extracted (fetch_loop f r initial) = Some (entry_of f r) \<and>
   url (entry_of f r) = result_url r \<and>
   (error' (entry_of f r) \<noteq> None \<longleftrightarrow> url_fails f) \<and>
   (error' (entry_of f r) \<noteq> None \<longrightarrow> content (entry_of f r) = [])"
proof -
  consider
    (a) e where "try_fetch r (f 1) = Inr e"
  | (b) x e where "try_fetch r (f 1) = Inl x" "try_fetch r (f 2) = Inr e"
  | (c) x y e where "try_fetch r (f 1) = Inl x" "try_fetch r (f 2) = Inl y"
                    "try_fetch r (f 3) = Inr e"
  | (d) x y z where "try_fetch r (f 1) = Inl x" "try_fetch r (f 2) = Inl y"
                    "try_fetch r (f 3) = Inl z"
    by (meson sumE)
  then show ?thesis
  proof cases
    case a
    with try_fetch_kinds[of "f 1" r] show ?thesis
      by (auto simp: entry_of_def fetch_loop_first[of r f e, OF a] url_fails_def)
  next
    case b
    with try_fetch_kinds[of "f 1" r] try_fetch_kinds[of "f 2" r] show ?thesis
      by (auto simp: entry_of_def fetch_loop_second[of r f x e, OF b] url_fails_def)
  next
    case c
    with try_fetch_kinds[of "f 1" r] try_fetch_kinds[of "f 2" r] try_fetch_kinds[of "f 3" r]
    show ?thesis
      by (auto simp: entry_of_def fetch_loop_third[of r f x y e, OF c] url_fails_def)
  next
    case d
    with try_fetch_kinds[of "f 1" r] try_fetch_kinds[of "f 2" r] try_fetch_kinds[of "f 3" r]
    show ?thesis
      by (auto simp: entry_of_def fetch_loop_exhausted[of r f x y z, OF d] url_fails_def failed_def)
  qed
qed

lemma extract_all_eq:
  "extract_all fetch i acc rs =
     acc @ map (\<lambda>(j, r). entry_of (fetch j) r)
             (filter (\<lambda>(j, r). result_url r \<noteq> []) (List.enumerate i rs))"
  by (induction rs arbitrary: i acc) (simp_all add: extracted_fetch_loop Let_def)

lemma extract_all_urls:
  "map url (extract_all fetch 0 [] rs) = filter (\<lambda>u. u \<noteq> []) (map result_url rs)"
proof -
  have "map url (extract_all fetch i [] rs) = filter (\<lambda>u. u \<noteq> []) (map result_url rs)" for i
    by (induction rs arbitrary: i)
       (simp_all add: extract_all_eq extracted_fetch_loop case_prod_unfold comp_def)
  then show ?thesis .
qed

lemma extract_all_full:
  assumes "\<forall>r \<in> set rs. result_url r \<noteq> []"
  shows "extract_all fetch 0 [] rs = map (\<lambda>i. entry_of (fetch i) (rs ! i)) [0..<length rs]"
proof -
  have "filter (\<lambda>(j, r). result_url r \<noteq> []) (List.enumerate 0 rs) = List.enumerate 0 rs"
    using assms by (auto simp: filter_id_conv in_set_enumerate_eq)
  then have "extract_all fetch 0 [] rs = map (\<lambda>(j, r). entry_of (fetch j) r) (List.enumerate 0 rs)"
    by (simp add: extract_all_eq)
  also have "\<dots> = map (\<lambda>i. entry_of (fetch i) (rs ! i)) [0..<length rs]"
    by (rule nth_equalityI) (simp_all add: nth_enumerate_eq)
  finally show ?thesis .
qed

lemma count_by_index:
  "length (filter P (map g [0..<n])) = length (filter (\<lambda>i. P (g i)) [0..<n])"
  by (simp add: filter_map comp_def)

lemma content_extractor_stored:
  "StateSet key (AContent xs) \<in> set (fst (content_extractor ctx fetch payload))
   \<Longrightarrow> xs = extract_all fetch 0 [] (results payload)"
  by (auto simp: content_extractor_def andThen_def state_set_def emit_def Let_def
      split: option.splits)

lemma content_extractor_stores:
  "set_fails ctx (extractor_traceId payload @ '':extracted_content'') = None \<Longrightarrow>
   StateSet (extractor_traceId payload @ '':extracted_content'')
     (AContent (extract_all fetch 0 [] (results payload)))
     \<in> set (fst (content_extractor ctx fetch payload))"
  by (auto simp: content_extractor_def andThen_def state_set_def emit_def Let_def
      split: option.splits)

text \<open>
  C4 (as amended).  The \<open>extracted_content\<close> artifact that content-extractor stores has
  one entry, in order, for each search result whose URL is not empty (a result with an
  empty URL is skipped), and every entry with an error has an empty content.  When all
  \<open>n\<close> URLs are non-empty, the artifact has exactly \<open>n\<close> entries, entry \<open>i\<close> is what
  the attempts at URL \<open>i\<close> alone give, it carries an error exactly when URL \<open>i\<close> fails
  extraction, and so the entries with an error and an empty content are as many as the
  failing URLs.  No outcome of a fetch makes the handler raise: it raises exactly when
  \<open>state.set\<close> or \<open>emit\<close> rejects, and it stores the artifact whenever
  \<open>state.set\<close> does not reject.
\<close>

theorem content_extractor_artifact:
  "(\<forall>xs. StateSet (extractor_traceId payload @ '':extracted_content'') (AContent xs)
            \<in> set (fst (content_extractor ctx fetch payload)) \<longrightarrow>
      map url xs = filter (\<lambda>u. u \<noteq> []) (map result_url (results payload)) \<and>
      (\<forall>x \<in> set xs. error' x \<noteq> None \<longrightarrow> content x = []) \<and>
      ((\<forall>r \<in> set (results payload). result_url r \<noteq> []) \<longrightarrow>
         length xs = length (results payload) \<and>
         (\<forall>i < length (results payload).
            xs ! i = entry_of (fetch i) (results payload ! i) \<and>
            (error' (xs ! i) \<noteq> None \<longleftrightarrow> url_fails (fetch i))) \<and>
         length (filter (\<lambda>x. error' x \<noteq> None \<and> content x = []) xs) =
           length (filter (\<lambda>i. url_fails (fetch i)) [0..<length (results payload)])))
   \<and> snd (content_extractor ctx fetch payload) =
       (case set_fails ctx (extractor_traceId payload @ '':extracted_content'') of
          Some e \<Rightarrow> Some e
        | None \<Rightarrow> emit_fails ctx ''content.extracted'')
   \<and> (set_fails ctx (extractor_traceId payload @ '':extracted_content'') = None \<longrightarrow>
        (\<exists>xs. StateSet (extractor_traceId payload @ '':extracted_content'') (AContent xs)
            \<in> set (fst (content_extractor ctx fetch payload))))"
proof -
  let ?rs = "results payload"
  let ?xs = "extract_all fetch 0 [] ?rs"
  have urls: "map url ?xs = filter (\<lambda>u. u \<noteq> []) (map result_url ?rs)"
    by (rule extract_all_urls)
  have blank: "\<forall>x \<in> set ?xs. error' x \<noteq> None \<longrightarrow> content x = []"
    using extracted_fetch_loop by (auto simp: extract_all_eq)
  have full: "length ?xs = length ?rs \<and>
         (\<forall>i < length ?rs.
            ?xs ! i = entry_of (fetch i) (?rs ! i) \<and>
            (error' (?xs ! i) \<noteq> None \<longleftrightarrow> url_fails (fetch i))) \<and>
         length (filter (\<lambda>x. error' x \<noteq> None \<and> content x = []) ?xs) =
           length (filter (\<lambda>i. url_fails (fetch i)) [0..<length ?rs])"
    if all: "\<forall>r \<in> set ?rs. result_url r \<noteq> []"
  proof -
    note eq = extract_all_full[OF all, of fetch]
    have "length (filter (\<lambda>x. error' x \<noteq> None \<and> content x = []) ?xs) =
          length (filter (\<lambda>i. error' (entry_of (fetch i) (?rs ! i)) \<noteq> None \<and>
                               content (entry_of (fetch i) (?rs ! i)) = []) [0..<length ?rs])"
      unfolding eq by (rule count_by_index)
    also have "\<dots> = length (filter (\<lambda>i. url_fails (fetch i)) [0..<length ?rs])"
      using extracted_fetch_loop by (metis (no_types, lifting))
    finally show ?thesis
      using extracted_fetch_loop by (simp add: eq)
  qed
  have raise: "snd (content_extractor ctx fetch payload) =
       (case set_fails ctx (extractor_traceId payload @ '':extracted_content'') of
          Some e \<Rightarrow> Some e
        | None \<Rightarrow> emit_fails ctx ''content.extracted'')"
    by (simp add: content_extractor_def andThen_def state_set_def emit_def Let_def
        split: option.splits)
  from urls blank full raise content_extractor_stored[of _ _ ctx fetch payload]
    content_extractor_stores[of ctx payload fetch]
  show ?thesis by blast
qed

text \<open>
  The claim as first stated gives \<open>n\<close> entries for \<open>n\<close> search results.  A batch of
  one result with an empty URL gives an artifact without entries.
\<close>

theorem content_extractor_blank_url_counterexample:
  "length (results blank_url) = 1 \<and>
   fst (content_extractor quiet sample_fetch blank_url) =
     [StateSet ''t1:extracted_content'' (AContent []),
      Emit ''content.extracted'' (ContentExtracted ''t1'' [])]"
  by (simp add: content_extractor_def blank_url_def quiet_def andThen_def state_set_def emit_def)

theorem content_extractor_artifact_witness:
  "map result_url (results sample_results) =
     [''https://a.example/x'', ''https://b.example/y'', ''https://c.example/z.pdf''] \<and>
   StateSet ''t1:extracted_content'' (AContent (extract_all sample_fetch 0 [] (results sample_results)))
     \<in> set (fst (content_extractor quiet sample_fetch sample_results)) \<and>
   length (extract_all sample_fetch 0 [] (results sample_results)) = 3 \<and>
   filter (\<lambda>i. url_fails (sample_fetch i)) [0..<3] = [1, 2] \<and>
   length (filter (\<lambda>x. error' x \<noteq> None \<and> content x = [])
             (extract_all sample_fetch 0 [] (results sample_results))) = 2 \<and>
   snd (content_extractor quiet sample_fetch sample_results) = None"
proof -
  have urls: "\<forall>r \<in> set (results sample_results). result_url r \<noteq> []"
    by (simp add: sample_results_def sample_result_def)
  have len: "length (results sample_results) = 3"
    "extractor_traceId sample_results = ''t1''"
    by (simp_all add: sample_results_def)
  have ok: "set_fails quiet (extractor_traceId sample_results @ '':extracted_content'') = None"
    "emit_fails quiet ''content.extracted'' = None"
    by (simp_all add: quiet_def)
  have stored: "StateSet (extractor_traceId sample_results @ '':extracted_content'')
     (AContent (extract_all sample_fetch 0 [] (results sample_results)))
     \<in> set (fst (content_extractor quiet sample_fetch sample_results))"
    by (rule content_extractor_stores[OF ok(1)])
  have fails: "filter (\<lambda>i. url_fails (sample_fetch i)) [0..<3] = [1, 2]"
    by (simp add: upt_rec numeral_3_eq_3 url_fails_def sample_fetch_def no_text_then_article_def
        always_times_out_def pdf_def html_page_def sample_article_def)
  note art = content_extractor_artifact[of sample_results quiet sample_fetch]
  from art[THEN conjunct1, THEN spec, THEN mp, OF stored, THEN conjunct2, THEN conjunct2,
      THEN mp, OF urls]
  have "length (extract_all sample_fetch 0 [] (results sample_results)) = 3"
    "length (filter (\<lambda>x. error' x \<noteq> None \<and> content x = [])
             (extract_all sample_fetch 0 [] (results sample_results))) = 2"
    using fails by (simp_all add: len del: extract_all.simps)
  moreover from art[THEN conjunct2, THEN conjunct1]
  have "snd (content_extractor quiet sample_fetch sample_results) = None"
    by (simp add: ok)
  moreover have "map result_url (results sample_results) =
     [''https://a.example/x'', ''https://b.example/y'', ''https://c.example/z.pdf'']"
    by (simp add: sample_results_def sample_result_def)
  ultimately show ?thesis
    using stored fails by (simp add: len del: extract_all.simps)
qed

subsection \<open>The report endpoint\<close>

text \<open>
  C8 (as amended).  For a request with a non-empty trace identifier: when the store access
  succeeds and the \<open>final_report\<close> artifact is present, the endpoint returns it with
  status 200; when the store access succeeds and nothing is stored under the key, it
  returns 404; it returns 500 exactly when the store access fails; no other status
  occurs.  A request whose trace identifier is missing or empty gets status 400, before
  the store is read.
\<close>

theorem report_retriever_status:
  "(queryParams_traceId input = Some tid \<and> tid \<noteq> [] \<longrightarrow>
      (get_fails ctx (tid @ '':final_report'') = None \<and>
       store ctx (tid @ '':final_report'') = Some (AReport r) \<longrightarrow>
         http_status (report_retriever ctx input) = 200 \<and>
         http_body (report_retriever ctx input) = Stored (AReport r)) \<and>
      (get_fails ctx (tid @ '':final_report'') = None \<and>
       store ctx (tid @ '':final_report'') = None \<longrightarrow>
         http_status (report_retriever ctx input) = 404) \<and>
      (http_status (report_retriever ctx input) = 500 \<longleftrightarrow>
         get_fails ctx (tid @ '':final_report'') \<noteq> None) \<and>
      http_status (report_retriever ctx input) \<in> {200, 404, 500})
   \<and> (queryParams_traceId input = None \<or> queryParams_traceId input = Some [] \<longrightarrow>
        http_status (report_retriever ctx input) = 400)"
  by (auto simp: report_retriever_def state_get_def Let_def split: option.splits)

text \<open>
  The claim as first stated gives 404 for every identifier whose artifact is absent.  For
  the empty identifier nothing is stored, and the status is 400.
\<close>

theorem report_retriever_empty_id_counterexample:
  "store quiet '':final_report'' = None \<and> http_status (report_retriever quiet empty_id) = 400"
  by (simp add: report_retriever_def empty_id_def quiet_def)

lemma report_compiler_run_ok:
  assumes "evaluatedQuestions payload < length h"
    and "get_fails ctx (payload_traceId payload @ '':seed_topic'') = None"
    and "set_fails ctx (payload_traceId payload @ '':final_report'') = None"
    and "emit_fails ctx ''report.generated'' = None"
  shows "snd (report_compiler ctx h payload) =
     ([StateSet (payload_traceId payload @ '':final_report'')
         (AReport (report_of ctx (payload_traceId payload) (h ! evaluatedQuestions payload))),
       Emit ''report.generated''
         (ReportGenerated (payload_traceId payload)
            (report_of ctx (payload_traceId payload) (h ! evaluatedQuestions payload)))], None)"
  using assms(2-)
  by (simp add: report_compiler_def case_prod_unfold compile_report_run[OF assms(1)]
      tryCatch_def andThen_def state_set_def emit_def Let_def)

lemma after_compiling_store:
  "store after_compiling ''t1:final_report'' = Some (AReport (report_of later ''t1'' (sample_heap ! 0)))"
  "store after_compiling ''no-such-trace:final_report'' = None"
  "get_fails after_compiling = Map.empty"
proof -
  have h: "evaluatedQuestions sample_payload < length sample_heap"
    by (simp add: sample_payload_def sample_heap_def)
  have p: "payload_traceId sample_payload = ''t1''" "evaluatedQuestions sample_payload = 0"
    by (simp_all add: sample_payload_def)
  have "snd (report_compiler later sample_heap sample_payload) =
     ([StateSet ''t1:final_report'' (AReport (report_of later ''t1'' (sample_heap ! 0))),
      Emit ''report.generated'' (ReportGenerated ''t1'' (report_of later ''t1'' (sample_heap ! 0)))],
      None)"
    using report_compiler_run_ok[OF h, of later] by (simp add: p later_def quiet_def)
  then have run: "fst (snd (report_compiler later sample_heap sample_payload)) =
     [StateSet ''t1:final_report'' (AReport (report_of later ''t1'' (sample_heap ! 0))),
      Emit ''report.generated'' (ReportGenerated ''t1'' (report_of later ''t1'' (sample_heap ! 0)))]"
    by simp
  show "store after_compiling ''t1:final_report'' =
          Some (AReport (report_of later ''t1'' (sample_heap ! 0)))"
    "store after_compiling ''no-such-trace:final_report'' = None"
    "get_fails after_compiling = Map.empty"
    by (simp_all add: after_compiling_def run) (simp_all add: later_def quiet_def)
qed

theorem report_retriever_status_witness:
  "http_status (report_retriever after_compiling known_id) = 200 \<and>
   http_body (report_retriever after_compiling known_id) =
     Stored (AReport (report_of later ''t1'' (sample_heap ! 0))) \<and>
   http_status (report_retriever after_compiling unknown_id) = 404 \<and>
   http_status (report_retriever store_down unknown_id) = 500 \<and>
   http_status (report_retriever after_compiling empty_id) = 400"
proof -
  have k: "queryParams_traceId known_id = Some ''t1'' \<and> ''t1'' \<noteq> []"
    by (simp add: known_id_def)
  have u: "queryParams_traceId unknown_id = Some ''no-such-trace'' \<and> ''no-such-trace'' \<noteq> []"
    by (simp add: unknown_id_def)
  have d: "get_fails store_down (''no-such-trace'' @ '':final_report'') \<noteq> None"
    by (simp add: store_down_def)
  have e: "queryParams_traceId empty_id = None \<or> queryParams_traceId empty_id = Some []"
    by (simp add: empty_id_def)
  from report_retriever_status[of known_id "''t1''" after_compiling
      "report_of later ''t1'' (sample_heap ! 0)", THEN conjunct1, THEN mp, OF k]
  have 1: "http_status (report_retriever after_compiling known_id) = 200"
    "http_body (report_retriever after_compiling known_id) =
       Stored (AReport (report_of later ''t1'' (sample_heap ! 0)))"
    using after_compiling_store by simp_all
  from report_retriever_status[of unknown_id "''no-such-trace''" after_compiling,
      THEN conjunct1, THEN mp, OF u]
  have 2: "http_status (report_retriever after_compiling unknown_id) = 404"
    using after_compiling_store by simp
  from report_retriever_status[of unknown_id "''no-such-trace''" store_down,
      THEN conjunct1, THEN mp, OF u] d
  have 3: "http_status (report_retriever store_down unknown_id) = 500"
    by blast
  from report_retriever_status[of empty_id _ after_compiling, THEN conjunct2, THEN mp, OF e]
  have 4: "http_status (report_retriever after_compiling empty_id) = 400" .
  from 1 2 3 4 show ?thesis by blast
qed

subsection \<open>What query-generator emits\<close>

lemma extract_queries_nonempty: "extract_queries env raw = Inr qs \<Longrightarrow> qs \<noteq> []"
  by (auto simp: extract_queries_def Let_def split: sum.splits if_splits)

lemma queries_of_strict:
  "JSON_parse env raw = Inr j \<Longrightarrow> queries_of j = Inr qs \<Longrightarrow> strict_strings env raw = qs"
  by (cases j) (auto simp: strict_strings_def split: option.splits json.splits)

lemma extract_queries_none:
  assumes "strict_strings env raw = []" "match_quoted raw = []"
  shows "\<exists>e. extract_queries env raw = Inl e"
proof (cases "JSON_parse env raw")
  case (Inl e)
  with assms show ?thesis by (simp add: extract_queries_def)
next
  case (Inr j)
  show ?thesis
  proof (cases "queries_of j")
    case (Inl e)
    with Inr assms show ?thesis by (simp add: extract_queries_def)
  next
    case qs: (Inr qs)
    with Inr assms queries_of_strict[OF Inr qs] show ?thesis
      by (simp add: extract_queries_def)
  qed
qed

lemma truthy_the: "truthy x \<Longrightarrow> x = Some (the x)"
  by (cases x) simp_all

lemma query_generator_cases:
  "(\<exists>qs. qs \<noteq> [] \<and> fst (query_generator ctx env payload) =
       [StateSet (seeded_traceId payload @ '':generated_queries'') (AStrings qs),
        Emit ''queries.generated'' (QueriesGenerated (seeded_traceId payload) qs)] \<and>
       (\<exists>raw. chat env 0 = Content (Some raw) \<and> extract_queries env raw = Inr qs))
   \<or> ((\<forall>a \<in> set (fst (query_generator ctx env payload)). \<not> is_emit ''queries.generated'' a) \<and>
       (emit_fails ctx ''workflow.error'' = None \<longrightarrow>
          (\<exists>msg. fst (query_generator ctx env payload) =
                   [Emit ''workflow.error''
                      (WorkflowError (seeded_traceId payload) ''query-generator'' msg)] \<or>
                 (\<exists>qs. fst (query_generator ctx env payload) =
                   [StateSet (seeded_traceId payload @ '':generated_queries'') (AStrings qs),
                    Emit ''workflow.error''
                      (WorkflowError (seeded_traceId payload) ''query-generator'' msg)]))))"
  by (auto simp: query_generator_def tryCatch_def andThen_def state_set_def emit_def throw_def
      Let_def dest: extract_queries_nonempty truthy_the
      split: completion.splits sum.splits option.splits)

lemma query_generator_none:
  assumes "chat env 0 = Content (Some raw)" "strict_strings env raw = []" "match_quoted raw = []"
  shows "fst (query_generator ctx env payload) =
           (if emit_fails ctx ''workflow.error'' = None
            then [Emit ''workflow.error''
                    (WorkflowError (seeded_traceId payload) ''query-generator''
                       (if \<not> truthy (OPENAI_API_KEY env) then ''Missing OpenAI API Key''
                        else if raw = [] then ''OpenAI response content is empty.''
                        else message_or_String (projl (extract_queries env raw))))]
            else [])"
proof -
  obtain e where "extract_queries env raw = Inl e"
    using extract_queries_none[OF assms(2,3)] by blast
  then show ?thesis
    using assms(1)
    by (simp add: query_generator_def tryCatch_def emit_def throw_def Let_def
        split: option.splits)
qed

text \<open>
  C9.  When query-generator emits \<open>queries.generated\<close>, the list of queries is not
  empty, and the run consists of storing that list under \<open>generated_queries\<close> and then
  emitting it.  When the completion yields no query, neither from the strictly parsed
  root array or \<open>queries\<close> array nor from the quoted substrings of the raw text, the
  run emits no \<open>queries.generated\<close>, and it emits \<open>workflow.error\<close> (unless that
  emit itself fails).
\<close>

theorem query_generator_queries:
  "((\<exists>a \<in> set (fst (query_generator ctx env payload)). is_emit ''queries.generated'' a)
       \<longrightarrow>
       (\<exists>qs. qs \<noteq> [] \<and>
          fst (query_generator ctx env payload) =
            [StateSet (seeded_traceId payload @ '':generated_queries'') (AStrings qs),
             Emit ''queries.generated'' (QueriesGenerated (seeded_traceId payload) qs)]))
   \<and> (\<forall>raw. chat env 0 = Content (Some raw) \<and>
            strict_strings env raw = [] \<and> match_quoted raw = [] \<longrightarrow>
        (\<forall>a \<in> set (fst (query_generator ctx env payload)).
            \<not> is_emit ''queries.generated'' a) \<and>
        (emit_fails ctx ''workflow.error'' = None \<longrightarrow>
           (\<exists>msg. fst (query_generator ctx env payload) =
              [Emit ''workflow.error''
                 (WorkflowError (seeded_traceId payload) ''query-generator'' msg)])))"
proof -
  have emitted: "\<exists>qs. qs \<noteq> [] \<and>
       fst (query_generator ctx env payload) =
         [StateSet (seeded_traceId payload @ '':generated_queries'') (AStrings qs),
          Emit ''queries.generated'' (QueriesGenerated (seeded_traceId payload) qs)]"
    if "\<exists>a \<in> set (fst (query_generator ctx env payload)). is_emit ''queries.generated'' a"
    using query_generator_cases[of ctx env payload] that by blast
  have none: "(\<forall>a \<in> set (fst (query_generator ctx env payload)).
            \<not> is_emit ''queries.generated'' a) \<and>
        (emit_fails ctx ''workflow.error'' = None \<longrightarrow>
           (\<exists>msg. fst (query_generator ctx env payload) =
              [Emit ''workflow.error''
                 (WorkflowError (seeded_traceId payload) ''query-generator'' msg)]))"
    if a: "chat env 0 = Content (Some raw) \<and>
            strict_strings env raw = [] \<and> match_quoted raw = []" for raw
  proof -
    from a have run: "fst (query_generator ctx env payload) =
           (if emit_fails ctx ''workflow.error'' = None
            then [Emit ''workflow.error''
                    (WorkflowError (seeded_traceId payload) ''query-generator''
                       (if \<not> truthy (OPENAI_API_KEY env) then ''Missing OpenAI API Key''
                        else if raw = [] then ''OpenAI response content is empty.''
                        else message_or_String (projl (extract_queries env raw))))]
            else [])"
      using query_generator_none by blast
    show ?thesis by (simp add: run)
  qed
  from emitted none show ?thesis by blast
qed

lemma match_quoted_prose: "match_quoted prose_reply = [''q1'', ''q2'']"
  by (simp add: prose_reply_def dquote_def line_terminator_def)

lemma prose_run:
  "fst (query_generator quiet (generator_env prose_reply) seeded) =
     [StateSet ''t1:generated_queries'' (AStrings [''q1'', ''q2'']),
      Emit ''queries.generated'' (QueriesGenerated ''t1'' [''q1'', ''q2''])]"
proof -
  have "prose_reply \<noteq> []" "prose_reply \<noteq> ''[]''"
    by (simp_all add: prose_reply_def)
  then show ?thesis
    by (simp add: query_generator_def generator_env_def seeded_def quiet_def extract_queries_def
        match_quoted_prose tryCatch_def andThen_def state_set_def emit_def Let_def)
qed

theorem query_generator_queries_witness:
  "Emit ''queries.generated'' (QueriesGenerated ''t1'' [''q1'', ''q2''])
     \<in> set (fst (query_generator quiet (generator_env prose_reply) seeded)) \<and>
   fst (query_generator quiet (generator_env prose_reply) seeded) =
     [StateSet ''t1:generated_queries'' (AStrings [''q1'', ''q2'']),
      Emit ''queries.generated'' (QueriesGenerated ''t1'' [''q1'', ''q2''])] \<and>
   chat (generator_env ''[]'') 0 = Content (Some ''[]'') \<and>
   strict_strings (generator_env ''[]'') ''[]'' = [] \<and> match_quoted ''[]'' = [] \<and>
   filter (is_emit ''queries.generated'')
     (fst (query_generator quiet (generator_env ''[]'') seeded)) = [] \<and>
   fst (query_generator quiet (generator_env ''[]'') seeded) =
     [Emit ''workflow.error''
        (WorkflowError ''t1'' ''query-generator''
           ''No valid queries were generated or extracted.'')]"
proof -
  have m: "Emit ''queries.generated'' (QueriesGenerated ''t1'' [''q1'', ''q2''])
     \<in> set (fst (query_generator quiet (generator_env prose_reply) seeded))"
    by (simp add: prose_run)
  have z: "chat (generator_env ''[]'') 0 = Content (Some ''[]'') \<and>
           strict_strings (generator_env ''[]'') ''[]'' = [] \<and> match_quoted ''[]'' = []"
    by (simp add: generator_env_def strict_strings_def dquote_def)
  have t: "seeded_traceId seeded = ''t1''" by (simp add: seeded_def)
  note gen = query_generator_queries[of quiet _ seeded]
  have "\<exists>a \<in> set (fst (query_generator quiet (generator_env prose_reply) seeded)).
          is_emit ''queries.generated'' a"
    using m is_emit.simps(1) by blast
  from gen[of "generator_env prose_reply", THEN conjunct1, THEN mp, OF this] m
  have 1: "fst (query_generator quiet (generator_env prose_reply) seeded) =
     [StateSet ''t1:generated_queries'' (AStrings [''q1'', ''q2'']),
      Emit ''queries.generated'' (QueriesGenerated ''t1'' [''q1'', ''q2''])]"
    by (auto simp: t)
  from gen[of "generator_env ''[]''", THEN conjunct2, THEN spec, THEN mp, OF z]
  have 2: "filter (is_emit ''queries.generated'')
     (fst (query_generator quiet (generator_env ''[]'') seeded)) = []"
    by (simp add: filter_empty_conv)
  have 3: "fst (query_generator quiet (generator_env ''[]'') seeded) =
     [Emit ''workflow.error''
        (WorkflowError ''t1'' ''query-generator''
           ''No valid queries were generated or extracted.'')]"
    by (simp add: query_generator_def generator_env_def seeded_def quiet_def extract_queries_def
        tryCatch_def throw_def emit_def Let_def)
  from m 1 z 2 3 show ?thesis by blast
qed

subsection \<open>Persist before emit\<close>

lemma persisted_Nil: "persisted_before key t []"
  by (simp add: persisted_before_def)

lemma persisted_snoc:
  assumes "persisted_before key t acts" "\<not> is_emit t a"
  shows "persisted_before key t (acts @ [a])"
  unfolding persisted_before_def
proof (intro allI impI)
  fix i
  assume i: "i < length (acts @ [a])" and e: "is_emit t ((acts @ [a]) ! i)"
  have "i < length acts"
    using i e assms(2) by (cases "i = length acts") (simp_all add: nth_append)
  with e assms(1) obtain j where "j < i" "is_set key (acts ! j)"
    by (auto simp: persisted_before_def nth_append)
  with \<open>i < length acts\<close> show "\<exists>j<i. is_set key ((acts @ [a]) ! j)"
    by (auto simp: nth_append intro!: exI[of _ j])
qed

lemma persisted_throw: "persisted_before key t (fst (throw e))"
  by (simp add: throw_def persisted_Nil)

lemma persisted_other_emit:
  "t' \<noteq> t \<Longrightarrow> persisted_before key t (fst (emit ctx t' d))"
  by (auto simp: emit_def persisted_before_def split: option.splits)

lemma persisted_set_emit:
  "persisted_before key t (fst (andThen (state_set ctx key v) (emit ctx t d)))"
  by (auto simp: andThen_def state_set_def emit_def persisted_before_def nth_Cons'
      split: option.splits)

lemma persisted_tryCatch:
  assumes "persisted_before key t (fst r)" "t' \<noteq> t"
  shows "persisted_before key t (fst (tryCatch r (\<lambda>e. emit ctx t' (g e))))"
    and "persisted_before key t (fst (tryCatch r (\<lambda>e. swallow (emit ctx t' (g e)))))"
  using assms persisted_snoc[of key t "fst r" "Emit t' d" for d]
  by (auto simp: tryCatch_def swallow_def emit_def split: option.splits)

lemma query_generator_shape:
  "persisted_before (seeded_traceId payload @ '':generated_queries'') ''queries.generated''
     (fst (query_generator ctx env payload))"
  unfolding query_generator_def Let_def
  by (auto intro!: persisted_tryCatch persisted_other_emit persisted_throw persisted_set_emit
      split: completion.splits sum.splits)

lemma exa_searcher_shape:
  "persisted_before (searcher_traceId payload @ '':exa_search_results'')
     ''search_results.obtained'' (fst (exa_searcher ctx env payload))"
  unfolding exa_searcher_def Let_def
  by (auto intro!: persisted_other_emit persisted_set_emit split: prod.splits)

lemma content_extractor_shape:
  "persisted_before (extractor_traceId payload @ '':extracted_content'') ''content.extracted''
     (fst (content_extractor ctx fetch payload))"
  unfolding content_extractor_def Let_def
  by (rule persisted_set_emit)

lemma brainstorm_shape:
  "persisted_before (brainstormer_traceId payload @ '':generated_questions'')
     ''questions.generated'' (fst (brainstorm ctx env payload))"
  unfolding brainstorm_def Let_def
  by (auto intro!: persisted_throw persisted_set_emit split: completion.splits sum.splits)

lemma question_brainstormer_shape:
  "persisted_before (brainstormer_traceId payload @ '':generated_questions'')
     ''questions.generated'' (fst (question_brainstormer ctx env payload))"
  unfolding question_brainstormer_def Let_def
  by (auto intro!: persisted_tryCatch persisted_other_emit brainstorm_shape)

lemma question_judger_shape:
  "persisted_before (judged_traceId payload @ '':evaluated_questions'') ''questions.judged''
     (fst (question_judger ctx env payload))"
  unfolding question_judger_def Let_def
  by (auto intro!: persisted_tryCatch persisted_other_emit persisted_throw persisted_set_emit
      split: sum.splits)

lemma compile_report_shape:
  "persisted_before (payload_traceId payload @ '':final_report'') ''report.generated''
     (fst (snd (compile_report ctx h payload)))"
  unfolding compile_report_def Let_def case_prod_unfold
  by (auto intro!: persisted_throw persisted_set_emit split: sum.splits)

lemma report_compiler_shape:
  "persisted_before (payload_traceId payload @ '':final_report'') ''report.generated''
     (fst (snd (report_compiler ctx h payload)))"
  unfolding report_compiler_def Let_def case_prod_unfold
  by (auto intro!: persisted_tryCatch compile_report_shape)

text \<open>
  C7.  In every run of each of the six stages (query generation, search, content
  extraction, brainstorming, judging, compilation), whatever fails, every emit of the
  successor event comes after a \<open>state.set\<close> of the artifact of the stage.
\<close>

theorem persist_before_emit:
  "persisted_before (seeded_traceId p1 @ '':generated_queries'') ''queries.generated''
     (fst (query_generator ctx env1 p1)) \<and>
   persisted_before (searcher_traceId p2 @ '':exa_search_results'') ''search_results.obtained''
     (fst (exa_searcher ctx env2 p2)) \<and>
   persisted_before (extractor_traceId p3 @ '':extracted_content'') ''content.extracted''
     (fst (content_extractor ctx fetch p3)) \<and>
   persisted_before (brainstormer_traceId p4 @ '':generated_questions'') ''questions.generated''
     (fst (question_brainstormer ctx env4 p4)) \<and>
   persisted_before (judged_traceId p5 @ '':evaluated_questions'') ''questions.judged''
     (fst (question_judger ctx env5 p5)) \<and>
   persisted_before (payload_traceId p6 @ '':final_report'') ''report.generated''
     (fst (snd (report_compiler ctx h p6)))"
  by (intro conjI query_generator_shape exa_searcher_shape content_extractor_shape
      question_brainstormer_shape question_judger_shape report_compiler_shape)

lemma exa_run:
  "fst (exa_searcher quiet sample_exa sample_queries) =
     [StateSet ''t1:exa_search_results'' (ASearchResults [sample_result]),
      Emit ''search_results.obtained''
        (SearchResultsObtained ''t1'' [sample_result]
           [''Query: '' @ [dquote] @ ''q2'' @ [dquote] @ '' - Error: rate limit''])]"
  by (simp add: exa_searcher_def sample_exa_def sample_queries_def quiet_def andThen_def
      state_set_def emit_def)

lemma brainstormer_run:
  "fst (question_brainstormer after_extracting ideas_env extracted_event) =
     [StateSet ''t1:generated_questions'' (AStrings [''Why?'', ''How?'']),
      Emit ''questions.generated'' (QuestionsGenerated ''t1'' [''Why?'', ''How?''])]"
  by (simp add: question_brainstormer_def brainstorm_def ideas_env_def extracted_event_def
      after_extracting_def quiet_def parse_questions_def tryCatch_def andThen_def
      state_set_def state_get_def emit_def Let_def)

lemma extractor_run:
  "map (is_emit ''content.extracted'') (fst (content_extractor quiet sample_fetch sample_results))
     = [False, True]"
  by (simp add: content_extractor_def quiet_def andThen_def state_set_def emit_def Let_def)

lemma judger_run:
  "map (is_emit ''questions.judged'') (fst (question_judger quiet sample_env sample_questions))
     = [False, True]"
  by (simp add: question_judger_def quiet_def sample_env_def tryCatch_def andThen_def
      state_set_def state_get_def emit_def Let_def)

lemma compiler_run:
  "map (is_emit ''report.generated'') (fst (snd (report_compiler quiet sample_heap sample_payload)))
     = [False, True]"
proof -
  have h: "evaluatedQuestions sample_payload < length sample_heap"
    by (simp add: sample_payload_def sample_heap_def)
  show ?thesis
    using report_compiler_run_ok[OF h, of quiet] by (simp add: quiet_def)
qed

theorem persist_before_emit_witness:
  "fst (query_generator quiet (generator_env prose_reply) seeded) =
     [StateSet ''t1:generated_queries'' (AStrings [''q1'', ''q2'']),
      Emit ''queries.generated'' (QueriesGenerated ''t1'' [''q1'', ''q2''])] \<and>
   persisted_before ''t1:generated_queries'' ''queries.generated''
     (fst (query_generator quiet (generator_env prose_reply) seeded)) \<and>
   map (is_emit ''search_results.obtained'') (fst (exa_searcher quiet sample_exa sample_queries))
     = [False, True] \<and>
   persisted_before ''t1:exa_search_results'' ''search_results.obtained''
     (fst (exa_searcher quiet sample_exa sample_queries)) \<and>
   map (is_emit ''content.extracted'') (fst (content_extractor quiet sample_fetch sample_results))
     = [False, True] \<and>
   persisted_before ''t1:extracted_content'' ''content.extracted''
     (fst (content_extractor quiet sample_fetch sample_results)) \<and>
   fst (question_brainstormer after_extracting ideas_env extracted_event) =
     [StateSet ''t1:generated_questions'' (AStrings [''Why?'', ''How?'']),
      Emit ''questions.generated'' (QuestionsGenerated ''t1'' [''Why?'', ''How?''])] \<and>
   persisted_before ''t1:generated_questions'' ''questions.generated''
     (fst (question_brainstormer after_extracting ideas_env extracted_event)) \<and>
   map (is_emit ''questions.judged'') (fst (question_judger quiet sample_env sample_questions))
     = [False, True] \<and>
   persisted_before ''t1:evaluated_questions'' ''questions.judged''
     (fst (question_judger quiet sample_env sample_questions)) \<and>
   map (is_emit ''report.generated'') (fst (snd (report_compiler quiet sample_heap sample_payload)))
     = [False, True] \<and>
   persisted_before ''t1:final_report'' ''report.generated''
     (fst (snd (report_compiler quiet sample_heap sample_payload)))"
proof -
  have ids: "seeded_traceId seeded = ''t1''" "searcher_traceId sample_queries = ''t1''"
    "extractor_traceId sample_results = ''t1''" "brainstormer_traceId extracted_event = ''t1''"
    "judged_traceId sample_questions = ''t1''" "payload_traceId sample_payload = ''t1''"
    by (simp_all add: seeded_def sample_queries_def sample_results_def extracted_event_def
        sample_questions_def sample_payload_def)
  have "persisted_before ''t1:generated_queries'' ''queries.generated''
          (fst (query_generator quiet (generator_env prose_reply) seeded))"
    "persisted_before ''t1:exa_search_results'' ''search_results.obtained''
          (fst (exa_searcher quiet sample_exa sample_queries))"
    "persisted_before ''t1:extracted_content'' ''content.extracted''
          (fst (content_extractor quiet sample_fetch sample_results))"
    "persisted_before ''t1:final_report'' ''report.generated''
          (fst (snd (report_compiler quiet sample_heap sample_payload)))"
    "persisted_before ''t1:evaluated_questions'' ''questions.judged''
          (fst (question_judger quiet sample_env sample_questions))"
    using persist_before_emit[of seeded quiet "generator_env prose_reply" sample_queries sample_exa
        sample_results sample_fetch extracted_event ideas_env sample_questions sample_env
        sample_payload sample_heap]
    by (simp_all only: ids append.simps)
  moreover have "persisted_before ''t1:generated_questions'' ''questions.generated''
          (fst (question_brainstormer after_extracting ideas_env extracted_event))"
    using persist_before_emit[of seeded after_extracting "generator_env prose_reply"
        sample_queries sample_exa sample_results sample_fetch extracted_event ideas_env
        sample_questions sample_env sample_payload sample_heap]
    by (simp only: ids append.simps)
  moreover have "map (is_emit ''search_results.obtained'')
      (fst (exa_searcher quiet sample_exa sample_queries)) = [False, True]"
    by (simp add: exa_run)
  ultimately show ?thesis
    using prose_run brainstormer_run extractor_run judger_run compiler_run by blast
qed

end
